theory Spec2Isabelle
  imports Main "HOL-Library.AList"
begin

section \<open>JavaScript values used by the studio\<close>

text \<open>
  Strings are byte lists holding the UTF-8 encoding of the source's literals; the program
  only compares strings, concatenates them, tests them for emptiness, searches a
  substring and trims white space, and each of these reads the same on UTF-8 bytes as on
  the code units of a well-formed JavaScript string. Numbers are integers: the indices
  of the program move in steps of one.
\<close>

text \<open>A string-or-null value is truthy when it is present and not the empty string.\<close>

definition truthy :: "string option \<Rightarrow> bool" where
  "truthy v = (case v of None \<Rightarrow> False | Some t \<Rightarrow> t \<noteq> [])"

text \<open>\<open>xs[i]\<close>: \<open>undefined\<close> (here \<open>None\<close>) outside the array.\<close>

definition at :: "'a list \<Rightarrow> int \<Rightarrow> 'a option" where
  "at xs i = (if 0 \<le> i \<and> i < int (length xs) then Some (xs ! nat i) else None)"

text \<open>
  \<open>Array.prototype.slice(start, end)\<close>: a negative index counts from the end, every
  index is clamped to the array, and \<open>end\<close> may be left out.
\<close>

definition rel_index :: "int \<Rightarrow> nat \<Rightarrow> nat" where
  "rel_index i len = (if i < 0 then nat (max (int len + i) 0) else min (nat i) len)"

definition slice :: "'a list \<Rightarrow> int \<Rightarrow> int option \<Rightarrow> 'a list" where
  "slice xs start end =
     (let len = length xs;
          k = rel_index start len;
          final = (case end of None \<Rightarrow> len | Some e \<Rightarrow> rel_index e len)
      in take (final - k) (drop k xs))"

text \<open>\<open>String.prototype.includes\<close>: the needle occurs as a contiguous run.\<close>

primrec includes_str :: "string \<Rightarrow> string \<Rightarrow> bool" where
  "includes_str [] needle = (needle = [])"
| "includes_str (c # cs) needle =
     (take (length needle) (c # cs) = needle \<or> includes_str cs needle)"

text \<open>
  A value that a rejected promise or a \<open>throw\<close> carries: an \<open>Error\<close> object with
  its message, or any other value with the text \<open>String(err)\<close> gives for it.
\<close>

datatype thrown = ErrorObj string | OtherValue string

section \<open>Data model\<close>

text \<open>The type declarations of \<open>types.ts\<close>, read off the fields the program uses.\<close>

datatype Category = clothing | accessory

record WardrobeItem =
  item_id :: string
  name :: string
  url :: string
  category :: Category

text \<open>
  \<open>poseImages\<close> is an object keyed by pose instruction: an association list in
  insertion order with each key at most once. \<open>map_of\<close> reads a key,
  \<open>AList.update\<close> writes one (in place when present, at the end otherwise).
\<close>

record OutfitLayer =
  garment :: "WardrobeItem option"
  poseImages :: "(string \<times> string) list"

record SavedOutfit =
  saved_id :: string
  imageUrl :: string
  items :: "WardrobeItem list"
  timestamp :: int

datatype File = File (file_name: string) (file_type: string)

text \<open>The state hooks of the \<open>App\<close> component (App.tsx, lines 51 to 62).\<close>

record app_state =
  modelImageUrl :: "string option"
  outfitHistory :: "OutfitLayer list"
  currentOutfitIndex :: int
  isLoading :: bool
  loadingMessage :: string
  error :: "string option"
  currentPoseIndex :: int
  isSheetCollapsed :: bool
  wardrobe :: "WardrobeItem list"
  videoUrls :: "string list"
  isVideoLoading :: bool
  savedOutfits :: "SavedOutfit list"

text \<open>
  What a handler asks of the outside world, in the order it asks: the three generation
  calls of \<open>geminiService.ts\<close> and the two calls on \<open>window.aistudio\<close>.
\<close>

datatype gateway_call =
    TryOnCall string File
  | PoseCall string "string option"
  | VideoCall string string
  | HasSelectedApiKey
  | OpenSelectKey

subsection \<open>String literals of the source\<close>

text \<open>The six pose instructions of \<open>POSE_INSTRUCTIONS\<close> (App.tsx, lines 22 to 29).\<close>

definition POSE_0 :: string where
  "POSE_0 =
   [CHR 0xE0, CHR 0xB8, CHR 0xA2, CHR 0xE0, CHR 0xB8, CHR 0xB7, CHR 0xE0, CHR 0xB8,
    CHR 0x99, CHR 0xE0, CHR 0xB8, CHR 0x95, CHR 0xE0, CHR 0xB8, CHR 0xB1, CHR 0xE0,
    CHR 0xB8, CHR 0xA7, CHR 0xE0, CHR 0xB8, CHR 0x95, CHR 0xE0, CHR 0xB8, CHR 0xA3,
    CHR 0xE0, CHR 0xB8, CHR 0x87, CHR 0x20, CHR 0xE0, CHR 0xB8, CHR 0xA1, CHR 0xE0,
    CHR 0xB8, CHR 0xB7, CHR 0xE0, CHR 0xB8, CHR 0xAD, CHR 0xE0, CHR 0xB8, CHR 0xA7,
    CHR 0xE0, CHR 0xB8, CHR 0xB2, CHR 0xE0, CHR 0xB8, CHR 0x87, CHR 0xE0, CHR 0xB8,
    CHR 0x82, CHR 0xE0, CHR 0xB9, CHR 0x89, CHR 0xE0, CHR 0xB8, CHR 0xB2, CHR 0xE0,
    CHR 0xB8, CHR 0x87, CHR 0xE0, CHR 0xB8, CHR 0xA5, CHR 0xE0, CHR 0xB8, CHR 0xB3,
    CHR 0xE0, CHR 0xB8, CHR 0x95, CHR 0xE0, CHR 0xB8, CHR 0xB1, CHR 0xE0, CHR 0xB8,
    CHR 0xA7]"

definition POSE_1 :: string where
  "POSE_1 =
   [CHR 0xE0, CHR 0xB8, CHR 0xAB, CHR 0xE0, CHR 0xB8, CHR 0xB1, CHR 0xE0, CHR 0xB8,
    CHR 0x99, CHR 0xE0, CHR 0xB8, CHR 0x82, CHR 0xE0, CHR 0xB9, CHR 0x89, CHR 0xE0,
    CHR 0xB8, CHR 0xB2, CHR 0xE0, CHR 0xB8, CHR 0x87, CHR 0xE0, CHR 0xB9, CHR 0x80,
    CHR 0xE0, CHR 0xB8, CHR 0xA5, CHR 0xE0, CHR 0xB9, CHR 0x87, CHR 0xE0, CHR 0xB8,
    CHR 0x81, CHR 0xE0, CHR 0xB8, CHR 0x99, CHR 0xE0, CHR 0xB9, CHR 0x89, CHR 0xE0,
    CHR 0xB8, CHR 0xAD, CHR 0xE0, CHR 0xB8, CHR 0xA2, CHR 0x20, CHR 0x34, CHR 0x35,
    CHR 0x20, CHR 0xE0, CHR 0xB8, CHR 0xAD, CHR 0xE0, CHR 0xB8, CHR 0x87, CHR 0xE0,
    CHR 0xB8, CHR 0xA8, CHR 0xE0, CHR 0xB8, CHR 0xB2]"

definition POSE_2 :: string where
  "POSE_2 =
   [CHR 0xE0, CHR 0xB8, CHR 0xAB, CHR 0xE0, CHR 0xB8, CHR 0xB1, CHR 0xE0, CHR 0xB8,
    CHR 0x99, CHR 0xE0, CHR 0xB8, CHR 0x82, CHR 0xE0, CHR 0xB9, CHR 0x89, CHR 0xE0,
    CHR 0xB8, CHR 0xB2, CHR 0xE0, CHR 0xB8, CHR 0x87, CHR 0xE0, CHR 0xB9, CHR 0x80,
    CHR 0xE0, CHR 0xB8, CHR 0x95, CHR 0xE0, CHR 0xB9, CHR 0x87, CHR 0xE0, CHR 0xB8,
    CHR 0xA1, CHR 0xE0, CHR 0xB8, CHR 0x95, CHR 0xE0, CHR 0xB8, CHR 0xB1, CHR 0xE0,
    CHR 0xB8, CHR 0xA7]"

definition POSE_3 :: string where
  "POSE_3 =
   [CHR 0xE0, CHR 0xB8, CHR 0x81, CHR 0xE0, CHR 0xB8, CHR 0xA3, CHR 0xE0, CHR 0xB8,
    CHR 0xB0, CHR 0xE0, CHR 0xB9, CHR 0x82, CHR 0xE0, CHR 0xB8, CHR 0x94, CHR 0xE0,
    CHR 0xB8, CHR 0x94, CHR 0xE0, CHR 0xB9, CHR 0x83, CHR 0xE0, CHR 0xB8, CHR 0x99,
    CHR 0xE0, CHR 0xB8, CHR 0xAD, CHR 0xE0, CHR 0xB8, CHR 0xB2, CHR 0xE0, CHR 0xB8,
    CHR 0x81, CHR 0xE0, CHR 0xB8, CHR 0xB2, CHR 0xE0, CHR 0xB8, CHR 0xA8, CHR 0x20,
    CHR 0xE0, CHR 0xB8, CHR 0x97, CHR 0xE0, CHR 0xB9, CHR 0x88, CHR 0xE0, CHR 0xB8,
    CHR 0xB2, CHR 0xE0, CHR 0xB9, CHR 0x81, CHR 0xE0, CHR 0xB8, CHR 0xAD, CHR 0xE0,
    CHR 0xB8, CHR 0x84, CHR 0xE0, CHR 0xB8, CHR 0x8A, CHR 0xE0, CHR 0xB8, CHR 0xB1,
    CHR 0xE0, CHR 0xB9, CHR 0x88, CHR 0xE0, CHR 0xB8, CHR 0x99]"

definition POSE_4 :: string where
  "POSE_4 =
   [CHR 0xE0, CHR 0xB8, CHR 0x81, CHR 0xE0, CHR 0xB8, CHR 0xB3, CHR 0xE0, CHR 0xB8,
    CHR 0xA5, CHR 0xE0, CHR 0xB8, CHR 0xB1, CHR 0xE0, CHR 0xB8, CHR 0x87, CHR 0xE0,
    CHR 0xB9, CHR 0x80, CHR 0xE0, CHR 0xB8, CHR 0x94, CHR 0xE0, CHR 0xB8, CHR 0xB4,
    CHR 0xE0, CHR 0xB8, CHR 0x99, CHR 0xE0, CHR 0xB9, CHR 0x80, CHR 0xE0, CHR 0xB8,
    CHR 0x82, CHR 0xE0, CHR 0xB9, CHR 0x89, CHR 0xE0, CHR 0xB8, CHR 0xB2, CHR 0xE0,
    CHR 0xB8, CHR 0xAB, CHR 0xE0, CHR 0xB8, CHR 0xB2, CHR 0xE0, CHR 0xB8, CHR 0xAB,
    CHR 0xE0, CHR 0xB8, CHR 0x99, CHR 0xE0, CHR 0xB9, CHR 0x89, CHR 0xE0, CHR 0xB8,
    CHR 0xB2, CHR 0xE0, CHR 0xB8, CHR 0x88, CHR 0xE0, CHR 0xB8, CHR 0xAD]"

definition POSE_5 :: string where
  "POSE_5 =
   [CHR 0xE0, CHR 0xB8, CHR 0x9E, CHR 0xE0, CHR 0xB8, CHR 0xB4, CHR 0xE0, CHR 0xB8,
    CHR 0x87, CHR 0xE0, CHR 0xB8, CHR 0x81, CHR 0xE0, CHR 0xB8, CHR 0xB3, CHR 0xE0,
    CHR 0xB9, CHR 0x81, CHR 0xE0, CHR 0xB8, CHR 0x9E, CHR 0xE0, CHR 0xB8, CHR 0x87,
    CHR 0xE0, CHR 0xB9, CHR 0x81, CHR 0xE0, CHR 0xB8, CHR 0x9A, CHR 0xE0, CHR 0xB8,
    CHR 0x9A, CHR 0xE0, CHR 0xB9, CHR 0x80, CHR 0xE0, CHR 0xB8, CHR 0x97, CHR 0xE0,
    CHR 0xB9, CHR 0x88, CHR 0xE0, CHR 0xB9, CHR 0x86]"

definition POSE_INSTRUCTIONS :: "string list" where
  "POSE_INSTRUCTIONS = [POSE_0, POSE_1, POSE_2, POSE_3, POSE_4, POSE_5]"

text \<open>
  A string that may be \<open>undefined\<close>, used as a property key or inside a template
  literal: JavaScript writes \<open>undefined\<close> out as the text \<open>undefined\<close>.
\<close>

definition js_string :: "string option \<Rightarrow> string" where
  "js_string k = (case k of None \<Rightarrow> ''undefined'' | Some t \<Rightarrow> t)"

text \<open>The fallback texts handed to \<open>getFriendlyErrorMessage\<close> (lines 169, 217, 246).\<close>

definition msg_cannot_use_item :: string where
  "msg_cannot_use_item =
   [CHR 0xE0, CHR 0xB9, CHR 0x84, CHR 0xE0, CHR 0xB8, CHR 0xA1, CHR 0xE0, CHR 0xB9,
    CHR 0x88, CHR 0xE0, CHR 0xB8, CHR 0xAA, CHR 0xE0, CHR 0xB8, CHR 0xB2, CHR 0xE0,
    CHR 0xB8, CHR 0xA1, CHR 0xE0, CHR 0xB8, CHR 0xB2, CHR 0xE0, CHR 0xB8, CHR 0xA3,
    CHR 0xE0, CHR 0xB8, CHR 0x96, CHR 0xE0, CHR 0xB9, CHR 0x83, CHR 0xE0, CHR 0xB8,
    CHR 0x8A, CHR 0xE0, CHR 0xB9, CHR 0x89, CHR 0xE0, CHR 0xB9, CHR 0x84, CHR 0xE0,
    CHR 0xB8, CHR 0xAD, CHR 0xE0, CHR 0xB9, CHR 0x80, CHR 0xE0, CHR 0xB8, CHR 0x97,
    CHR 0xE0, CHR 0xB8, CHR 0xA1, CHR 0xE0, CHR 0xB8, CHR 0x99, CHR 0xE0, CHR 0xB8,
    CHR 0xB5, CHR 0xE0, CHR 0xB9, CHR 0x89, CHR 0xE0, CHR 0xB9, CHR 0x84, CHR 0xE0,
    CHR 0xB8, CHR 0x94, CHR 0xE0, CHR 0xB9, CHR 0x89]"

definition msg_cannot_change_pose :: string where
  "msg_cannot_change_pose =
   [CHR 0xE0, CHR 0xB9, CHR 0x84, CHR 0xE0, CHR 0xB8, CHR 0xA1, CHR 0xE0, CHR 0xB9,
    CHR 0x88, CHR 0xE0, CHR 0xB8, CHR 0xAA, CHR 0xE0, CHR 0xB8, CHR 0xB2, CHR 0xE0,
    CHR 0xB8, CHR 0xA1, CHR 0xE0, CHR 0xB8, CHR 0xB2, CHR 0xE0, CHR 0xB8, CHR 0xA3,
    CHR 0xE0, CHR 0xB8, CHR 0x96, CHR 0xE0, CHR 0xB9, CHR 0x80, CHR 0xE0, CHR 0xB8,
    CHR 0x9B, CHR 0xE0, CHR 0xB8, CHR 0xA5, CHR 0xE0, CHR 0xB8, CHR 0xB5, CHR 0xE0,
    CHR 0xB9, CHR 0x88, CHR 0xE0, CHR 0xB8, CHR 0xA2, CHR 0xE0, CHR 0xB8, CHR 0x99,
    CHR 0xE0, CHR 0xB8, CHR 0x97, CHR 0xE0, CHR 0xB9, CHR 0x88, CHR 0xE0, CHR 0xB8,
    CHR 0xB2, CHR 0xE0, CHR 0xB8, CHR 0x97, CHR 0xE0, CHR 0xB8, CHR 0xB2, CHR 0xE0,
    CHR 0xB8, CHR 0x87, CHR 0xE0, CHR 0xB9, CHR 0x84, CHR 0xE0, CHR 0xB8, CHR 0x94,
    CHR 0xE0, CHR 0xB9, CHR 0x89]"

definition msg_cannot_create_video :: string where
  "msg_cannot_create_video =
   [CHR 0xE0, CHR 0xB9, CHR 0x84, CHR 0xE0, CHR 0xB8, CHR 0xA1, CHR 0xE0, CHR 0xB9,
    CHR 0x88, CHR 0xE0, CHR 0xB8, CHR 0xAA, CHR 0xE0, CHR 0xB8, CHR 0xB2, CHR 0xE0,
    CHR 0xB8, CHR 0xA1, CHR 0xE0, CHR 0xB8, CHR 0xB2, CHR 0xE0, CHR 0xB8, CHR 0xA3,
    CHR 0xE0, CHR 0xB8, CHR 0x96, CHR 0xE0, CHR 0xB8, CHR 0xAA, CHR 0xE0, CHR 0xB8,
    CHR 0xA3, CHR 0xE0, CHR 0xB9, CHR 0x89, CHR 0xE0, CHR 0xB8, CHR 0xB2, CHR 0xE0,
    CHR 0xB8, CHR 0x87, CHR 0xE0, CHR 0xB8, CHR 0xA7, CHR 0xE0, CHR 0xB8, CHR 0xB4,
    CHR 0xE0, CHR 0xB8, CHR 0x94, CHR 0xE0, CHR 0xB8, CHR 0xB5, CHR 0xE0, CHR 0xB9,
    CHR 0x82, CHR 0xE0, CHR 0xB8, CHR 0xAD, CHR 0xE0, CHR 0xB9, CHR 0x84, CHR 0xE0,
    CHR 0xB8, CHR 0x94, CHR 0xE0, CHR 0xB9, CHR 0x89]"

text \<open>The message of the wardrobe panel when an item's image cannot be loaded.\<close>

definition msg_item_load_failed :: string where
  "msg_item_load_failed =
   [CHR 0xE0, CHR 0xB9, CHR 0x82, CHR 0xE0, CHR 0xB8, CHR 0xAB, CHR 0xE0, CHR 0xB8,
    CHR 0xA5, CHR 0xE0, CHR 0xB8, CHR 0x94, CHR 0xE0, CHR 0xB9, CHR 0x84, CHR 0xE0,
    CHR 0xB8, CHR 0xAD, CHR 0xE0, CHR 0xB9, CHR 0x80, CHR 0xE0, CHR 0xB8, CHR 0x97,
    CHR 0xE0, CHR 0xB8, CHR 0xA1, CHR 0xE0, CHR 0xB9, CHR 0x84, CHR 0xE0, CHR 0xB8,
    CHR 0xA1, CHR 0xE0, CHR 0xB9, CHR 0x88, CHR 0xE0, CHR 0xB8, CHR 0xAA, CHR 0xE0,
    CHR 0xB8, CHR 0xB3, CHR 0xE0, CHR 0xB9, CHR 0x80, CHR 0xE0, CHR 0xB8, CHR 0xA3,
    CHR 0xE0, CHR 0xB9, CHR 0x87, CHR 0xE0, CHR 0xB8, CHR 0x88, CHR 0x20, CHR 0xE0,
    CHR 0xB8, CHR 0x81, CHR 0xE0, CHR 0xB8, CHR 0xA3, CHR 0xE0, CHR 0xB8, CHR 0xB8,
    CHR 0xE0, CHR 0xB8, CHR 0x93, CHR 0xE0, CHR 0xB8, CHR 0xB2, CHR 0xE0, CHR 0xB8,
    CHR 0xA5, CHR 0xE0, CHR 0xB8, CHR 0xAD, CHR 0xE0, CHR 0xB8, CHR 0x87, CHR 0xE0,
    CHR 0xB9, CHR 0x83, CHR 0xE0, CHR 0xB8, CHR 0xAB, CHR 0xE0, CHR 0xB8, CHR 0xA1,
    CHR 0xE0, CHR 0xB9, CHR 0x88, CHR 0xE0, CHR 0xB8, CHR 0xAD, CHR 0xE0, CHR 0xB8,
    CHR 0xB5, CHR 0xE0, CHR 0xB8, CHR 0x81, CHR 0xE0, CHR 0xB8, CHR 0x84, CHR 0xE0,
    CHR 0xB8, CHR 0xA3, CHR 0xE0, CHR 0xB8, CHR 0xB1, CHR 0xE0, CHR 0xB9, CHR 0x89,
    CHR 0xE0, CHR 0xB8, CHR 0x87]"

text \<open>The pieces of the loading messages (lines 142, 143, 200 and 235).\<close>

definition txt_kamlang :: string where
  "txt_kamlang =
   [CHR 0xE0, CHR 0xB8, CHR 0x81, CHR 0xE0, CHR 0xB8, CHR 0xB3, CHR 0xE0, CHR 0xB8,
    CHR 0xA5, CHR 0xE0, CHR 0xB8, CHR 0xB1, CHR 0xE0, CHR 0xB8, CHR 0x87]"

definition txt_add_accessory :: string where
  "txt_add_accessory =
   [CHR 0xE0, CHR 0xB9, CHR 0x80, CHR 0xE0, CHR 0xB8, CHR 0x9E, CHR 0xE0, CHR 0xB8,
    CHR 0xB4, CHR 0xE0, CHR 0xB9, CHR 0x88, CHR 0xE0, CHR 0xB8, CHR 0xA1, CHR 0xE0,
    CHR 0xB9, CHR 0x80, CHR 0xE0, CHR 0xB8, CHR 0x84, CHR 0xE0, CHR 0xB8, CHR 0xA3,
    CHR 0xE0, CHR 0xB8, CHR 0xB7, CHR 0xE0, CHR 0xB9, CHR 0x88, CHR 0xE0, CHR 0xB8,
    CHR 0xAD, CHR 0xE0, CHR 0xB8, CHR 0x87, CHR 0xE0, CHR 0xB8, CHR 0x9B, CHR 0xE0,
    CHR 0xB8, CHR 0xA3, CHR 0xE0, CHR 0xB8, CHR 0xB0, CHR 0xE0, CHR 0xB8, CHR 0x94,
    CHR 0xE0, CHR 0xB8, CHR 0xB1, CHR 0xE0, CHR 0xB8, CHR 0x9A]"

definition txt_try_outfit :: string where
  "txt_try_outfit =
   [CHR 0xE0, CHR 0xB8, CHR 0xA5, CHR 0xE0, CHR 0xB8, CHR 0xAD, CHR 0xE0, CHR 0xB8,
    CHR 0x87, CHR 0xE0, CHR 0xB8, CHR 0x8A, CHR 0xE0, CHR 0xB8, CHR 0xB8, CHR 0xE0,
    CHR 0xB8, CHR 0x94]"

definition txt_changing_pose :: string where
  "txt_changing_pose =
   [CHR 0xE0, CHR 0xB8, CHR 0x81, CHR 0xE0, CHR 0xB8, CHR 0xB3, CHR 0xE0, CHR 0xB8,
    CHR 0xA5, CHR 0xE0, CHR 0xB8, CHR 0xB1, CHR 0xE0, CHR 0xB8, CHR 0x87, CHR 0xE0,
    CHR 0xB9, CHR 0x80, CHR 0xE0, CHR 0xB8, CHR 0x9B, CHR 0xE0, CHR 0xB8, CHR 0xA5,
    CHR 0xE0, CHR 0xB8, CHR 0xB5, CHR 0xE0, CHR 0xB9, CHR 0x88, CHR 0xE0, CHR 0xB8,
    CHR 0xA2, CHR 0xE0, CHR 0xB8, CHR 0x99, CHR 0xE0, CHR 0xB8, CHR 0x97, CHR 0xE0,
    CHR 0xB9, CHR 0x88, CHR 0xE0, CHR 0xB8, CHR 0xB2, CHR 0xE0, CHR 0xB8, CHR 0x97,
    CHR 0xE0, CHR 0xB8, CHR 0xB2, CHR 0xE0, CHR 0xB8, CHR 0x87, CHR 0x2E, CHR 0x2E,
    CHR 0x2E]"

definition txt_creating_video_with :: string where
  "txt_creating_video_with =
   [CHR 0xE0, CHR 0xB8, CHR 0x81, CHR 0xE0, CHR 0xB8, CHR 0xB3, CHR 0xE0, CHR 0xB8,
    CHR 0xA5, CHR 0xE0, CHR 0xB8, CHR 0xB1, CHR 0xE0, CHR 0xB8, CHR 0x87, CHR 0xE0,
    CHR 0xB8, CHR 0xAA, CHR 0xE0, CHR 0xB8, CHR 0xA3, CHR 0xE0, CHR 0xB9, CHR 0x89,
    CHR 0xE0, CHR 0xB8, CHR 0xB2, CHR 0xE0, CHR 0xB8, CHR 0x87, CHR 0xE0, CHR 0xB8,
    CHR 0xA7, CHR 0xE0, CHR 0xB8, CHR 0xB4, CHR 0xE0, CHR 0xB8, CHR 0x94, CHR 0xE0,
    CHR 0xB8, CHR 0xB5, CHR 0xE0, CHR 0xB9, CHR 0x82, CHR 0xE0, CHR 0xB8, CHR 0xAD,
    CHR 0xE0, CHR 0xB8, CHR 0x94, CHR 0xE0, CHR 0xB9, CHR 0x89, CHR 0xE0, CHR 0xB8,
    CHR 0xA7, CHR 0xE0, CHR 0xB8, CHR 0xA2, CHR 0x20]"

text \<open>The display names of the default wardrobe (wardrobe.ts).\<close>

definition name_gemini_sweat :: string where
  "name_gemini_sweat =
   [CHR 0xE0, CHR 0xB9, CHR 0x80, CHR 0xE0, CHR 0xB8, CHR 0xAA, CHR 0xE0, CHR 0xB8,
    CHR 0xB7, CHR 0xE0, CHR 0xB9, CHR 0x89, CHR 0xE0, CHR 0xB8, CHR 0xAD, CHR 0xE0,
    CHR 0xB8, CHR 0xAA, CHR 0xE0, CHR 0xB9, CHR 0x80, CHR 0xE0, CHR 0xB8, CHR 0xA7,
    CHR 0xE0, CHR 0xB8, CHR 0x95, CHR 0xE0, CHR 0xB9, CHR 0x80, CHR 0xE0, CHR 0xB8,
    CHR 0x95, CHR 0xE0, CHR 0xB8, CHR 0xAD, CHR 0xE0, CHR 0xB8, CHR 0xA3, CHR 0xE0,
    CHR 0xB9, CHR 0x8C, CHR 0x20, CHR 0x47, CHR 0x65, CHR 0x6D, CHR 0x69, CHR 0x6E,
    CHR 0x69]"

definition name_gemini_tee :: string where
  "name_gemini_tee =
   [CHR 0xE0, CHR 0xB9, CHR 0x80, CHR 0xE0, CHR 0xB8, CHR 0xAA, CHR 0xE0, CHR 0xB8,
    CHR 0xB7, CHR 0xE0, CHR 0xB9, CHR 0x89, CHR 0xE0, CHR 0xB8, CHR 0xAD, CHR 0xE0,
    CHR 0xB8, CHR 0xA2, CHR 0xE0, CHR 0xB8, CHR 0xB7, CHR 0xE0, CHR 0xB8, CHR 0x94,
    CHR 0x20, CHR 0x47, CHR 0x65, CHR 0x6D, CHR 0x69, CHR 0x6E, CHR 0x69]"

definition name_black_cap :: string where
  "name_black_cap =
   [CHR 0xE0, CHR 0xB8, CHR 0xAB, CHR 0xE0, CHR 0xB8, CHR 0xA1, CHR 0xE0, CHR 0xB8,
    CHR 0xA7, CHR 0xE0, CHR 0xB8, CHR 0x81, CHR 0xE0, CHR 0xB9, CHR 0x81, CHR 0xE0,
    CHR 0xB8, CHR 0x81, CHR 0xE0, CHR 0xB9, CHR 0x8A, CHR 0xE0, CHR 0xB8, CHR 0x9B,
    CHR 0xE0, CHR 0xB8, CHR 0xAA, CHR 0xE0, CHR 0xB8, CHR 0xB5, CHR 0xE0, CHR 0xB8,
    CHR 0x94, CHR 0xE0, CHR 0xB8, CHR 0xB3]"

definition name_sunglasses :: string where
  "name_sunglasses =
   [CHR 0xE0, CHR 0xB9, CHR 0x81, CHR 0xE0, CHR 0xB8, CHR 0xA7, CHR 0xE0, CHR 0xB9,
    CHR 0x88, CHR 0xE0, CHR 0xB8, CHR 0x99, CHR 0xE0, CHR 0xB8, CHR 0x81, CHR 0xE0,
    CHR 0xB8, CHR 0xB1, CHR 0xE0, CHR 0xB8, CHR 0x99, CHR 0xE0, CHR 0xB9, CHR 0x81,
    CHR 0xE0, CHR 0xB8, CHR 0x94, CHR 0xE0, CHR 0xB8, CHR 0x94, CHR 0xE0, CHR 0xB8,
    CHR 0x97, CHR 0xE0, CHR 0xB8, CHR 0xA3, CHR 0xE0, CHR 0xB8, CHR 0x87, CHR 0xE0,
    CHR 0xB9, CHR 0x80, CHR 0xE0, CHR 0xB8, CHR 0x97, CHR 0xE0, CHR 0xB9, CHR 0x88]"

definition name_leather_bag :: string where
  "name_leather_bag =
   [CHR 0xE0, CHR 0xB8, CHR 0x81, CHR 0xE0, CHR 0xB8, CHR 0xA3, CHR 0xE0, CHR 0xB8,
    CHR 0xB0, CHR 0xE0, CHR 0xB9, CHR 0x80, CHR 0xE0, CHR 0xB8, CHR 0x9B, CHR 0xE0,
    CHR 0xB9, CHR 0x8B, CHR 0xE0, CHR 0xB8, CHR 0xB2, CHR 0xE0, CHR 0xB8, CHR 0x96,
    CHR 0xE0, CHR 0xB8, CHR 0xB7, CHR 0xE0, CHR 0xB8, CHR 0xAD, CHR 0xE0, CHR 0xB8,
    CHR 0xAB, CHR 0xE0, CHR 0xB8, CHR 0x99, CHR 0xE0, CHR 0xB8, CHR 0xB1, CHR 0xE0,
    CHR 0xB8, CHR 0x87]"

definition defaultWardrobe :: "WardrobeItem list" where
  "defaultWardrobe =
    [\<lparr>item_id = ''gemini-sweat'', name = name_gemini_sweat,
      url = ''https://raw.githubusercontent.com/ammaarreshi/app-images/refs/heads/main/gemini-sweat-2.png'',
      category = clothing\<rparr>,
     \<lparr>item_id = ''gemini-tee'', name = name_gemini_tee,
      url = ''https://raw.githubusercontent.com/ammaarreshi/app-images/refs/heads/main/Gemini-tee.png'',
      category = clothing\<rparr>,
     \<lparr>item_id = ''black-cap'', name = name_black_cap,
      url = ''https://images.unsplash.com/photo-1588850561407-ed78c282e1c7?q=80&w=400&auto=format&fit=crop'',
      category = accessory\<rparr>,
     \<lparr>item_id = ''sunglasses'', name = name_sunglasses,
      url = ''https://images.unsplash.com/photo-1572635196237-14b3f281503f?q=80&w=400&auto=format&fit=crop'',
      category = accessory\<rparr>,
     \<lparr>item_id = ''leather-bag'', name = name_leather_bag,
      url = ''https://images.unsplash.com/photo-1584917865442-de89df76afd3?q=80&w=400&auto=format&fit=crop'',
      category = accessory\<rparr>]"

section \<open>The outfit engine (App.tsx)\<close>

text \<open>The state of the first render: the initial values of the hooks.\<close>

definition initialState :: app_state where
  "initialState =
    \<lparr>modelImageUrl = None, outfitHistory = [], currentOutfitIndex = 0, isLoading = False,
     loadingMessage = [], error = None, currentPoseIndex = 0, isSheetCollapsed = False,
     wardrobe = defaultWardrobe, videoUrls = [], isVideoLoading = False, savedOutfits = []\<rparr>"

subsection \<open>Derived views\<close>

text \<open>\<open>Object.values(o)[0]\<close>: the value inserted first, if any.\<close>

definition first_value :: "(string \<times> string) list \<Rightarrow> string option" where
  "first_value obj = (case obj of [] \<Rightarrow> None | kv # _ \<Rightarrow> Some (snd kv))"

definition activeOutfitLayers :: "app_state \<Rightarrow> OutfitLayer list" where
  "activeOutfitLayers s = slice (outfitHistory s) 0 (Some (currentOutfitIndex s + 1))"

text \<open>\<open>layer.garment?.id\<close>, and \<open>filter(Boolean)\<close> dropping the missing and empty ids.\<close>

definition garment_id :: "OutfitLayer \<Rightarrow> string option" where
  "garment_id layer = map_option item_id (garment layer)"

definition activeGarmentIds :: "app_state \<Rightarrow> string list" where
  "activeGarmentIds s =
     concat (map (\<lambda>layer. case garment_id layer of
                              None \<Rightarrow> []
                            | Some i \<Rightarrow> if i = [] then [] else [i])
                 (activeOutfitLayers s))"

definition displayImageUrl :: "app_state \<Rightarrow> string option" where
  "displayImageUrl s =
     (if length (outfitHistory s) = 0 then modelImageUrl s
      else case at (outfitHistory s) (currentOutfitIndex s) of
             None \<Rightarrow> modelImageUrl s
           | Some currentLayer \<Rightarrow>
               (let poseInstruction = at POSE_INSTRUCTIONS (currentPoseIndex s)
                in case map_of (poseImages currentLayer) (js_string poseInstruction) of
                     Some img \<Rightarrow> Some img
                   | None \<Rightarrow> first_value (poseImages currentLayer)))"

definition availablePoseKeys :: "app_state \<Rightarrow> string list" where
  "availablePoseKeys s =
     (if length (outfitHistory s) = 0 then []
      else case at (outfitHistory s) (currentOutfitIndex s) of
             None \<Rightarrow> []
           | Some currentLayer \<Rightarrow> map fst (poseImages currentLayer))"

subsection \<open>Handlers without a generation call\<close>

definition handleModelFinalized :: "string \<Rightarrow> app_state \<Rightarrow> app_state" where
  "handleModelFinalized u s =
     s\<lparr>modelImageUrl := Some u,
       outfitHistory := [\<lparr>garment = None, poseImages = [(js_string (at POSE_INSTRUCTIONS 0), u)]\<rparr>],
       currentOutfitIndex := 0\<rparr>"

definition handleStartOver :: "app_state \<Rightarrow> app_state" where
  "handleStartOver s =
     s\<lparr>modelImageUrl := None, outfitHistory := [], currentOutfitIndex := 0,
       isLoading := False, loadingMessage := [], error := None, currentPoseIndex := 0,
       isSheetCollapsed := False, wardrobe := defaultWardrobe, videoUrls := []\<rparr>"

definition handleRemoveLastGarment :: "app_state \<Rightarrow> app_state" where
  "handleRemoveLastGarment s =
     (if currentOutfitIndex s > 0
      then s\<lparr>currentOutfitIndex := currentOutfitIndex s - 1,
             currentPoseIndex := 0,
             videoUrls := []\<rparr>
      else s)"

subsection \<open>Handlers around a generation call\<close>

text \<open>
  First each asynchronous handler as a whole: called on the render of the state of the
  moment and run to its completion with no other handler in between, so that the
  state it closed over is the state its functional updaters see. The awaited promise
  is an input, \<open>Inr\<close> the value it resolves to and \<open>Inl\<close> what it rejects with. The
  handler returns the state after its last setter together with the calls it issued.
  \<open>getFriendlyErrorMessage\<close> lives in \<open>lib/utils\<close> and is a parameter. A call from
  an earlier render, and what happens between the two halves of a call, follow
  further down.
\<close>

definition garmentLoadingMessage :: "WardrobeItem \<Rightarrow> string" where
  "garmentLoadingMessage garmentInfo =
     (let actionText = (if category garmentInfo = accessory then txt_add_accessory
                        else txt_try_outfit)
      in txt_kamlang @ actionText @ '' '' @ name garmentInfo @ ''...'')"

definition handleGarmentSelect ::
  "(thrown \<Rightarrow> string \<Rightarrow> string) \<Rightarrow> File \<Rightarrow> WardrobeItem \<Rightarrow> thrown + string \<Rightarrow> app_state
     \<Rightarrow> app_state \<times> gateway_call list" where
  "handleGarmentSelect getFriendlyErrorMessage garmentFile garmentInfo outcome s =
     (case displayImageUrl s of
        None \<Rightarrow> (s, [])
      | Some img \<Rightarrow>
          if img = [] \<or> isLoading s then (s, [])
          else if (case at (outfitHistory s) (currentOutfitIndex s + 1) of
                     None \<Rightarrow> False
                   | Some nextLayer \<Rightarrow> garment_id nextLayer = Some (item_id garmentInfo))
          then (s\<lparr>currentOutfitIndex := currentOutfitIndex s + 1, currentPoseIndex := 0\<rparr>, [])
          else
            let s1 = s\<lparr>error := None, isLoading := True,
                       loadingMessage := garmentLoadingMessage garmentInfo\<rparr>;
                s2 = (case outcome of
                        Inr newImageUrl \<Rightarrow>
                          let currentPoseInstruction = at POSE_INSTRUCTIONS (currentPoseIndex s);
                              newLayer = \<lparr>garment = Some garmentInfo,
                                          poseImages = [(js_string currentPoseInstruction, newImageUrl)]\<rparr>
                          in s1\<lparr>outfitHistory :=
                                   slice (outfitHistory s1) 0 (Some (currentOutfitIndex s + 1)) @ [newLayer],
                                currentOutfitIndex := currentOutfitIndex s1 + 1,
                                wardrobe :=
                                  (case find (\<lambda>item. item_id item = item_id garmentInfo) (wardrobe s1) of
                                     Some _ \<Rightarrow> wardrobe s1
                                   | None \<Rightarrow> wardrobe s1 @ [garmentInfo]),
                                videoUrls := []\<rparr>
                      | Inl err \<Rightarrow>
                          s1\<lparr>error := Some (getFriendlyErrorMessage err msg_cannot_use_item)\<rparr>)
            in (s2\<lparr>isLoading := False, loadingMessage := []\<rparr>, [TryOnCall img garmentFile]))"

text \<open>
  \<open>handlePoseSelect\<close> reads \<open>currentLayer.poseImages\<close> without a check: with no layer
  under the cursor that is a \<open>TypeError\<close> before any setter has run. In the
  updater of the success branch \<open>prevHistory\<close> is the history the handler read, so
  \<open>newHistory[currentOutfitIndex]\<close> is \<open>currentLayer\<close> and the index is in range.
\<close>

datatype js_exception = TypeError

definition handlePoseSelect ::
  "(thrown \<Rightarrow> string \<Rightarrow> string) \<Rightarrow> int \<Rightarrow> thrown + string \<Rightarrow> app_state
     \<Rightarrow> js_exception + app_state \<times> gateway_call list" where
  "handlePoseSelect getFriendlyErrorMessage newIndex outcome s =
     (if isLoading s \<or> length (outfitHistory s) = 0 \<or> newIndex = currentPoseIndex s
      then Inr (s, [])
      else
        let poseInstruction = at POSE_INSTRUCTIONS newIndex
        in case at (outfitHistory s) (currentOutfitIndex s) of
             None \<Rightarrow> Inl TypeError
           | Some currentLayer \<Rightarrow>
               if truthy (map_of (poseImages currentLayer) (js_string poseInstruction))
               then Inr (s\<lparr>currentPoseIndex := newIndex\<rparr>, [])
               else
                 (case first_value (poseImages currentLayer) of
                    None \<Rightarrow> Inr (s, [])
                  | Some baseImageForPoseChange \<Rightarrow>
                      if baseImageForPoseChange = [] then Inr (s, [])
                      else
                        let s1 = s\<lparr>error := None, isLoading := True,
                                   loadingMessage := txt_changing_pose\<rparr>;
                            prevPoseIndex = currentPoseIndex s;
                            s2 = s1\<lparr>currentPoseIndex := newIndex\<rparr>;
                            s3 = (case outcome of
                                    Inr newImageUrl \<Rightarrow>
                                      let updatedLayer = currentLayer
                                            \<lparr>poseImages := AList.update (js_string poseInstruction)
                                                             newImageUrl (poseImages currentLayer)\<rparr>
                                      in s2\<lparr>outfitHistory :=
                                               (outfitHistory s2)[nat (currentOutfitIndex s) := updatedLayer],
                                            videoUrls := []\<rparr>
                                  | Inl err \<Rightarrow>
                                      s2\<lparr>error := Some (getFriendlyErrorMessage err msg_cannot_change_pose),
                                         currentPoseIndex := prevPoseIndex\<rparr>)
                        in Inr (s3\<lparr>isLoading := False, loadingMessage := []\<rparr>,
                                [PoseCall baseImageForPoseChange poseInstruction])))"

text \<open>
  \<open>handleGenerateVideo\<close>: \<open>hasKey\<close> is what \<open>hasSelectedApiKey\<close> resolves to; the two
  calls on \<open>window.aistudio\<close> are taken to resolve.
\<close>

definition videoLoadingMessage :: "string \<Rightarrow> string" where
  "videoLoadingMessage model =
     txt_creating_video_with
       @ (if model = ''veo-3.1-generate-preview'' then ''Veo Pro'' else ''Veo Fast'') @ ''...''"

definition handleGenerateVideo ::
  "(thrown \<Rightarrow> string \<Rightarrow> string) \<Rightarrow> string \<Rightarrow> bool \<Rightarrow> thrown + string \<Rightarrow> app_state
     \<Rightarrow> app_state \<times> gateway_call list" where
  "handleGenerateVideo getFriendlyErrorMessage model hasKey outcome s =
     (case displayImageUrl s of
        None \<Rightarrow> (s, [])
      | Some img \<Rightarrow>
          if img = [] \<or> isVideoLoading s then (s, [])
          else
            let keyCalls = HasSelectedApiKey # (if \<not> hasKey then [OpenSelectKey] else []);
                s1 = s\<lparr>isVideoLoading := True, error := None,
                       loadingMessage := videoLoadingMessage model\<rparr>
            in case outcome of
                 Inr videoUrl \<Rightarrow>
                   (s1\<lparr>videoUrls := slice (videoUrls s1 @ [videoUrl]) (- 2) None,
                       isVideoLoading := False, loadingMessage := []\<rparr>,
                    keyCalls @ [VideoCall img model])
               | Inl err \<Rightarrow>
                   let errorMsg = (case err of ErrorObj m \<Rightarrow> m | OtherValue t \<Rightarrow> t)
                   in (s1\<lparr>error := Some (getFriendlyErrorMessage err msg_cannot_create_video),
                          isVideoLoading := False, loadingMessage := []\<rparr>,
                       keyCalls @ [VideoCall img model]
                         @ (if includes_str errorMsg ''Requested entity was not found''
                            then [OpenSelectKey] else [])))"

subsection \<open>The callers in the presentation layer\<close>

text \<open>
  \<open>handleGarmentClick\<close> of the wardrobe panel. The panel keeps an error text of its
  own, paired here with the state of the app; its \<open>isLoading\<close> property is
  \<open>isLoading || isVideoLoading\<close> and its \<open>activeGarmentIds\<close> the derived view.
  \<open>fileOutcome\<close> is what \<open>urlToFile\<close> settles to.
\<close>

definition handleGarmentClick ::
  "(thrown \<Rightarrow> string \<Rightarrow> string) \<Rightarrow> WardrobeItem \<Rightarrow> thrown + File \<Rightarrow> thrown + string
     \<Rightarrow> string option \<times> app_state \<Rightarrow> (string option \<times> app_state) \<times> gateway_call list" where
  "handleGarmentClick getFriendlyErrorMessage item fileOutcome outcome ps =
     (let s = snd ps
      in if (isLoading s \<or> isVideoLoading s) \<or> item_id item \<in> set (activeGarmentIds s)
         then (ps, [])
         else case fileOutcome of
                Inr file \<Rightarrow>
                  (let r = handleGarmentSelect getFriendlyErrorMessage file item outcome s
                   in ((None, fst r), snd r))
              | Inl err \<Rightarrow> ((Some msg_item_load_failed, s), []))"

text \<open>
  The start screen shows the button that calls \<open>onModelFinalized(generatedModelUrl)\<close>
  only while \<open>generatedModelUrl\<close> is truthy; without a generated model there is
  nothing to click and the state stays as it is.
\<close>

definition finalizeModelClick :: "string option \<Rightarrow> app_state \<Rightarrow> app_state" where
  "finalizeModelClick generatedModelUrl s =
     (case generatedModelUrl of
        None \<Rightarrow> s
      | Some u \<Rightarrow> if u = [] then s else handleModelFinalized u s)"

subsection \<open>A call from a render that is no longer current\<close>

text \<open>
  A handler is a closure of the render that created it. What it reads as
  \<open>displayImageUrl\<close>, \<open>isLoading\<close>, \<open>outfitHistory\<close>, \<open>currentOutfitIndex\<close> or
  \<open>currentPoseIndex\<close> is the state of that render; a setter with a value and an
  updater \<open>prev => ...\<close> act on the state of the moment. The two differ when the handler
  is called late: \<open>handleGarmentClick\<close> checks its guard, awaits \<open>urlToFile\<close> and only
  then calls the \<open>onGarmentSelect\<close> of the render that was clicked, and the part of a
  handler after its \<open>await\<close> runs when the generation has settled, whatever has
  happened meanwhile. So each asynchronous handler comes in two parts, both taking
  the render they close over and the state of the moment: the part up to the
  \<open>await\<close>, which either finishes or waits on a call, and the part after it.
\<close>

datatype progress =
    Done (state_of: app_state)
  | Waiting (state_of: app_state) gateway_call

definition handleGarmentSelect_begin ::
  "File \<Rightarrow> WardrobeItem \<Rightarrow> app_state \<Rightarrow> app_state \<Rightarrow> progress" where
  "handleGarmentSelect_begin garmentFile garmentInfo render s =
     (case displayImageUrl render of
        None \<Rightarrow> Done s
      | Some img \<Rightarrow>
          if img = [] \<or> isLoading render then Done s
          else if (case at (outfitHistory render) (currentOutfitIndex render + 1) of
                     None \<Rightarrow> False
                   | Some nextLayer \<Rightarrow> garment_id nextLayer = Some (item_id garmentInfo))
          then Done (s\<lparr>currentOutfitIndex := currentOutfitIndex s + 1, currentPoseIndex := 0\<rparr>)
          else Waiting (s\<lparr>error := None, isLoading := True,
                          loadingMessage := garmentLoadingMessage garmentInfo\<rparr>)
                       (TryOnCall img garmentFile))"

definition handleGarmentSelect_settle ::
  "(thrown \<Rightarrow> string \<Rightarrow> string) \<Rightarrow> WardrobeItem \<Rightarrow> thrown + string \<Rightarrow> app_state \<Rightarrow> app_state
     \<Rightarrow> app_state" where
  "handleGarmentSelect_settle getFriendlyErrorMessage garmentInfo outcome render s =
     (let s2 = (case outcome of
                  Inr newImageUrl \<Rightarrow>
                    let currentPoseInstruction = at POSE_INSTRUCTIONS (currentPoseIndex render);
                        newLayer = \<lparr>garment = Some garmentInfo,
                                    poseImages = [(js_string currentPoseInstruction, newImageUrl)]\<rparr>
                    in s\<lparr>outfitHistory :=
                            slice (outfitHistory s) 0 (Some (currentOutfitIndex render + 1)) @ [newLayer],
                         currentOutfitIndex := currentOutfitIndex s + 1,
                         wardrobe :=
                           (case find (\<lambda>item. item_id item = item_id garmentInfo) (wardrobe s) of
                              Some _ \<Rightarrow> wardrobe s
                            | None \<Rightarrow> wardrobe s @ [garmentInfo]),
                         videoUrls := []\<rparr>
                | Inl err \<Rightarrow>
                    s\<lparr>error := Some (getFriendlyErrorMessage err msg_cannot_use_item)\<rparr>)
      in s2\<lparr>isLoading := False, loadingMessage := []\<rparr>)"

text \<open>Both parts with nothing in between: the call as a whole, on a given render.\<close>

definition handleGarmentSelect_on ::
  "(thrown \<Rightarrow> string \<Rightarrow> string) \<Rightarrow> File \<Rightarrow> WardrobeItem \<Rightarrow> thrown + string \<Rightarrow> app_state
     \<Rightarrow> app_state \<Rightarrow> app_state \<times> gateway_call list" where
  "handleGarmentSelect_on getFriendlyErrorMessage garmentFile garmentInfo outcome render s =
     (case handleGarmentSelect_begin garmentFile garmentInfo render s of
        Done s' \<Rightarrow> (s', [])
      | Waiting s1 call \<Rightarrow>
          (handleGarmentSelect_settle getFriendlyErrorMessage garmentInfo outcome render s1, [call]))"

text \<open>
  \<open>handleGarmentClick\<close> on the render that was clicked: the guard reads that render's
  properties, and after \<open>urlToFile\<close> that render's \<open>onGarmentSelect\<close> is called.
\<close>

definition handleGarmentClick_on ::
  "(thrown \<Rightarrow> string \<Rightarrow> string) \<Rightarrow> WardrobeItem \<Rightarrow> thrown + File \<Rightarrow> thrown + string
     \<Rightarrow> app_state \<Rightarrow> string option \<times> app_state
     \<Rightarrow> (string option \<times> app_state) \<times> gateway_call list" where
  "handleGarmentClick_on getFriendlyErrorMessage item fileOutcome outcome render ps =
     (if (isLoading render \<or> isVideoLoading render) \<or> item_id item \<in> set (activeGarmentIds render)
      then (ps, [])
      else case fileOutcome of
             Inr file \<Rightarrow>
               (let r = handleGarmentSelect_on getFriendlyErrorMessage file item outcome render (snd ps)
                in ((None, fst r), snd r))
           | Inl err \<Rightarrow> ((Some msg_item_load_failed, snd ps), []))"

text \<open>
  \<open>handlePoseSelect\<close> in its two parts. The updater of the success branch writes
  \<open>newHistory[currentOutfitIndex]\<close> with the cursor of the render: outside the history
  of the moment JavaScript would grow the array, with a layer that has no garment
  field and holes before it, which is no value of the state's type; that outcome is
  \<open>None\<close>.
\<close>

definition handlePoseSelect_begin :: "int \<Rightarrow> app_state \<Rightarrow> app_state \<Rightarrow> js_exception + progress" where
  "handlePoseSelect_begin newIndex render s =
     (if isLoading render \<or> length (outfitHistory render) = 0 \<or> newIndex = currentPoseIndex render
      then Inr (Done s)
      else
        let poseInstruction = at POSE_INSTRUCTIONS newIndex
        in case at (outfitHistory render) (currentOutfitIndex render) of
             None \<Rightarrow> Inl TypeError
           | Some currentLayer \<Rightarrow>
               if truthy (map_of (poseImages currentLayer) (js_string poseInstruction))
               then Inr (Done (s\<lparr>currentPoseIndex := newIndex\<rparr>))
               else
                 (case first_value (poseImages currentLayer) of
                    None \<Rightarrow> Inr (Done s)
                  | Some baseImageForPoseChange \<Rightarrow>
                      if baseImageForPoseChange = [] then Inr (Done s)
                      else Inr (Waiting (s\<lparr>error := None, isLoading := True,
                                           loadingMessage := txt_changing_pose,
                                           currentPoseIndex := newIndex\<rparr>)
                                        (PoseCall baseImageForPoseChange poseInstruction))))"

definition handlePoseSelect_settle ::
  "(thrown \<Rightarrow> string \<Rightarrow> string) \<Rightarrow> int \<Rightarrow> thrown + string \<Rightarrow> app_state \<Rightarrow> app_state
     \<Rightarrow> app_state option" where
  "handlePoseSelect_settle getFriendlyErrorMessage newIndex outcome render s =
     (let poseInstruction = at POSE_INSTRUCTIONS newIndex;
          prevPoseIndex = currentPoseIndex render
      in case outcome of
           Inr newImageUrl \<Rightarrow>
             (case at (outfitHistory s) (currentOutfitIndex render) of
                None \<Rightarrow> None
              | Some layer \<Rightarrow>
                  let updatedLayer = layer\<lparr>poseImages := AList.update (js_string poseInstruction)
                                                            newImageUrl (poseImages layer)\<rparr>
                  in Some (s\<lparr>outfitHistory :=
                                (outfitHistory s)[nat (currentOutfitIndex render) := updatedLayer],
                              videoUrls := [], isLoading := False, loadingMessage := []\<rparr>))
         | Inl err \<Rightarrow>
             Some (s\<lparr>error := Some (getFriendlyErrorMessage err msg_cannot_change_pose),
                     currentPoseIndex := prevPoseIndex,
                     isLoading := False, loadingMessage := []\<rparr>))"

subsection \<open>Video requests in a row\<close>

text \<open>Video requests one after the other: the model, the key check and the outcome of each.\<close>

primrec generate_videos ::
  "(thrown \<Rightarrow> string \<Rightarrow> string) \<Rightarrow> (string \<times> bool \<times> (thrown + string)) list \<Rightarrow> app_state
     \<Rightarrow> app_state" where
  "generate_videos g [] s = s"
| "generate_videos g (req # reqs) s =
     generate_videos g reqs
       (fst (handleGenerateVideo g (fst req) (fst (snd req)) (snd (snd req)) s))"

section \<open>Reading a generation response (geminiService.ts)\<close>

text \<open>
  \<open>String.prototype.trim\<close> removes the white space and line terminators of ECMAScript
  from both ends. Their UTF-8 encodings, for the code points 9 to 13, 32, 160, 5760,
  8192 to 8202, 8232, 8233, 8239, 8287, 12288 and 65279:
\<close>

definition js_whitespace :: "string list" where
  "js_whitespace =
    [[CHR 0x09], [CHR 0x0A], [CHR 0x0B], [CHR 0x0C], [CHR 0x0D], [CHR 0x20],
     [CHR 0xC2, CHR 0xA0], [CHR 0xE1, CHR 0x9A, CHR 0x80],
     [CHR 0xE2, CHR 0x80, CHR 0x80], [CHR 0xE2, CHR 0x80, CHR 0x81],
     [CHR 0xE2, CHR 0x80, CHR 0x82], [CHR 0xE2, CHR 0x80, CHR 0x83],
     [CHR 0xE2, CHR 0x80, CHR 0x84], [CHR 0xE2, CHR 0x80, CHR 0x85],
     [CHR 0xE2, CHR 0x80, CHR 0x86], [CHR 0xE2, CHR 0x80, CHR 0x87],
     [CHR 0xE2, CHR 0x80, CHR 0x88], [CHR 0xE2, CHR 0x80, CHR 0x89],
     [CHR 0xE2, CHR 0x80, CHR 0x8A], [CHR 0xE2, CHR 0x80, CHR 0xA8],
     [CHR 0xE2, CHR 0x80, CHR 0xA9], [CHR 0xE2, CHR 0x80, CHR 0xAF],
     [CHR 0xE2, CHR 0x81, CHR 0x9F], [CHR 0xE3, CHR 0x80, CHR 0x80],
     [CHR 0xEF, CHR 0xBB, CHR 0xBF]]"

text \<open>Dropping, as long as one is there, a leading run that is one of \<open>ws\<close>.\<close>

function strip_leading :: "string list \<Rightarrow> string \<Rightarrow> string" where
  "strip_leading ws t =
     (case find (\<lambda>w. w \<noteq> [] \<and> take (length w) t = w) ws of
        None \<Rightarrow> t
      | Some w \<Rightarrow> strip_leading ws (drop (length w) t))"
  by pat_completeness auto
termination
proof (relation "measure (\<lambda>(ws, t). length t)")
  show "wf (measure (\<lambda>(ws, t). length t))" by simp
next
  fix ws :: "string list" and t w :: string
  assume "find (\<lambda>w. w \<noteq> [] \<and> take (length w) t = w) ws = Some w"
  then have w: "w \<noteq> []" and tk: "take (length w) t = w"
    by (auto simp: find_Some_iff)
  from tk have "length w \<le> length t"
    by (metis length_take min.cobounded1)
  with w show "((ws, drop (length w) t), (ws, t)) \<in> measure (\<lambda>(ws, t). length t)"
    by (cases w) auto
qed

definition trim :: "string \<Rightarrow> string" where
  "trim t = rev (strip_leading (map rev js_whitespace) (rev (strip_leading js_whitespace t)))"

text \<open>The fields of the SDK's response that \<open>handleApiResponse\<close> reads.\<close>

record Blob =
  mimeType :: "string option"
  data :: "string option"

record Part =
  inlineData :: "Blob option"

record Content =
  parts :: "Part list option"

record Candidate =
  content :: "Content option"
  finishReason :: "string option"

record GenerateContentResponse =
  candidates :: "Candidate list option"
  response_text :: "string option"

text \<open>The inner loop, over the parts of one candidate.\<close>

primrec first_inlineData :: "Part list \<Rightarrow> Blob option" where
  "first_inlineData [] = None"
| "first_inlineData (part # rest) =
     (case inlineData part of
        Some b \<Rightarrow> Some b
      | None \<Rightarrow> first_inlineData rest)"

text \<open>\<open>candidate.content?.parts ?? []\<close>\<close>

definition candidate_parts :: "Candidate \<Rightarrow> Part list" where
  "candidate_parts candidate =
     (case content candidate of
        None \<Rightarrow> []
      | Some c \<Rightarrow> (case parts c of None \<Rightarrow> [] | Some ps \<Rightarrow> ps))"

text \<open>The outer loop, over the candidates.\<close>

primrec scan_candidates :: "Candidate list \<Rightarrow> Blob option" where
  "scan_candidates [] = None"
| "scan_candidates (candidate # rest) =
     (case first_inlineData (candidate_parts candidate) of
        Some b \<Rightarrow> Some b
      | None \<Rightarrow> scan_candidates rest)"

text \<open>\<open>response.candidates ?? []\<close>\<close>

definition response_candidates :: "GenerateContentResponse \<Rightarrow> Candidate list" where
  "response_candidates response = (case candidates response of None \<Rightarrow> [] | Some cs \<Rightarrow> cs)"

text \<open>The result is \<open>Inr\<close> the data URL returned or \<open>Inl\<close> the error thrown.\<close>

definition handleApiResponse :: "GenerateContentResponse \<Rightarrow> thrown + string" where
  "handleApiResponse response =
     (case scan_candidates (response_candidates response) of
        Some b \<Rightarrow> Inr (''data:'' @ js_string (mimeType b) @ '';base64,'' @ js_string (data b))
      | None \<Rightarrow>
          let reason = (case candidates response of
                          None \<Rightarrow> None
                        | Some cs \<Rightarrow> (case at cs 0 of None \<Rightarrow> None | Some c \<Rightarrow> finishReason c))
          in if truthy reason \<and> reason \<noteq> Some ''STOP''
             then Inl (ErrorObj (''Image generation stopped. Reason: '' @ js_string reason))
             else
               let textFeedback = map_option trim (response_text response)
               in Inl (ErrorObj (case textFeedback of
                                   None \<Rightarrow> ''AI did not return an image.''
                                 | Some t \<Rightarrow> if t = [] then ''AI did not return an image.'' else t)))"

section \<open>Example values\<close>

text \<open>Two garments, a file, a formatter and a few states to run the handlers on.\<close>

definition shirt :: WardrobeItem where
  "shirt = \<lparr>item_id = ''g1'', name = ''Shirt'', url = ''blob:shirt'', category = clothing\<rparr>"

definition hat :: WardrobeItem where
  "hat = \<lparr>item_id = ''g2'', name = ''Hat'', url = ''blob:hat'', category = accessory\<rparr>"

definition png :: File where
  "png = File ''item.png'' ''image/png''"

definition fallback_only :: "thrown \<Rightarrow> string \<Rightarrow> string" where
  "fallback_only err context = context"

definition studio :: app_state where
  "studio = handleModelFinalized ''data:M0'' initialState"

definition dressed :: app_state where
  "dressed = fst (handleGarmentSelect fallback_only png shirt (Inr ''data:I1'') studio)"

definition undressed :: app_state where
  "undressed = handleRemoveLastGarment dressed"

definition filmed :: app_state where
  "filmed = fst (handleGenerateVideo fallback_only ''veo-3.1-fast-generate-preview'' True
                   (Inr ''blob:V1'') undressed)"

definition posed :: app_state where
  "posed = (case handlePoseSelect fallback_only 1 (Inr ''data:I2'') dressed of
              Inl _ \<Rightarrow> dressed
            | Inr r \<Rightarrow> fst r)"

definition filmed_pose :: app_state where
  "filmed_pose = fst (handleGenerateVideo fallback_only ''veo-3.1-fast-generate-preview'' True
                        (Inr ''blob:V1'') posed)"

text \<open>
  Two clicks on the shirt in the wardrobe panel of one render, the render of
  \<open>undressed\<close>: the state after the first and after the second.
\<close>

definition first_click :: app_state where
  "first_click = snd (fst (handleGarmentClick_on fallback_only shirt (Inr png) (Inr ''data:I3'')
                             undressed (None, undressed)))"

definition second_click :: app_state where
  "second_click = snd (fst (handleGarmentClick_on fallback_only shirt (Inr png) (Inr ''data:I3'')
                              undressed (None, first_click)))"

text \<open>
  A third pose is asked for in \<open>posed\<close> and the generation is under way
  (\<open>turning\<close>); the user starts over, and then the generation fails (\<open>rolled_back\<close>).
\<close>

definition turning :: app_state where
  "turning = (case handlePoseSelect_begin 2 posed posed of
                Inl _ \<Rightarrow> posed
              | Inr p \<Rightarrow> state_of p)"

definition rolled_back :: app_state where
  "rolled_back = (case handlePoseSelect_settle fallback_only 2 (Inl (ErrorObj ''quota'')) posed
                         (handleStartOver turning) of
                    None \<Rightarrow> handleStartOver turning
                  | Some s \<Rightarrow> s)"

definition two_videos :: app_state where
  "two_videos = dressed\<lparr>videoUrls := [''blob:V1'', ''blob:V2'']\<rparr>"

text \<open>
  Three responses: one with an image in its second part, one stopped for safety, and one
  that ends normally with a line of text and a line feed after it.
\<close>

definition with_image :: GenerateContentResponse where
  "with_image =
     \<lparr>candidates = Some [\<lparr>content = Some \<lparr>parts = Some
                            [\<lparr>inlineData = None\<rparr>,
                             \<lparr>inlineData = Some \<lparr>mimeType = Some ''image/png'', data = Some ''QUJD''\<rparr>\<rparr>]\<rparr>,
                          finishReason = Some ''STOP''\<rparr>],
      response_text = Some ''Here it is.''\<rparr>"

definition blocked :: GenerateContentResponse where
  "blocked = \<lparr>candidates = Some [\<lparr>content = None, finishReason = Some ''SAFETY''\<rparr>],
              response_text = None\<rparr>"

definition chatty :: GenerateContentResponse where
  "chatty =
     \<lparr>candidates = Some [\<lparr>content = Some \<lparr>parts = Some [\<lparr>inlineData = None\<rparr>]\<rparr>,
                          finishReason = Some ''STOP''\<rparr>],
      response_text = Some (''No image.'' @ [CHR 0x0A])\<rparr>"

section \<open>The history invariant\<close>

text \<open>The cursor points into the history and the first layer carries no garment.\<close>

definition history_ok :: "OutfitLayer list \<Rightarrow> int \<Rightarrow> bool" where
  "history_ok h c = (0 \<le> c \<and> c < int (length h) \<and> map_option garment (at h 0) = Some None)"

text \<open>
  Every layer holds at least one image and no image is the empty string. The handlers
  test images for truthiness, so an empty image would count as a missing one.
\<close>

definition layer_images_ok :: "OutfitLayer \<Rightarrow> bool" where
  "layer_images_ok layer =
     (poseImages layer \<noteq> [] \<and> list_all (\<lambda>kv. snd kv \<noteq> []) (poseImages layer))"

definition images_ok :: "app_state \<Rightarrow> bool" where
  "images_ok s = list_all layer_images_ok (outfitHistory s)"

section \<open>Facts about the JavaScript helpers\<close>

lemma at_Some_iff: "at xs i = Some x \<longleftrightarrow> 0 \<le> i \<and> i < int (length xs) \<and> xs ! nat i = x"
  by (auto simp: at_def)

lemma at_None_iff: "at xs i = None \<longleftrightarrow> \<not> (0 \<le> i \<and> i < int (length xs))"
  by (simp add: at_def)

lemma at_0: "at xs 0 = (case xs of [] \<Rightarrow> None | x # _ \<Rightarrow> Some x)"
  by (cases xs) (simp_all add: at_def)

lemma slice_prefix: "0 \<le> e \<Longrightarrow> slice xs 0 (Some e) = take (nat e) xs"
proof -
  have "take (min (nat e) (length xs)) xs = take (nat e) xs"
    by (cases "nat e \<le> length xs") (simp_all add: min_def)
  then show ?thesis if "0 \<le> e"
    using that by (simp add: slice_def rel_index_def Let_def)
qed

lemma slice_last_two: "slice xs (- 2) None = drop (length xs - 2) xs"
proof -
  have "nat (max (int (length xs) - 2) 0) = length xs - 2"
    by linarith
  then show ?thesis
    by (simp add: slice_def rel_index_def Let_def)
qed

lemma at_Nil: "at [] i = None"
  by (simp add: at_def)

lemma at_Cons: "at (x # xs) i = (if i = 0 then Some x else at xs (i - 1))"
proof (cases "0 < i")
  case True
  then have "nat i = Suc (nat (i - 1))" by simp
  with True show ?thesis by (auto simp: at_def)
next
  case False
  then show ?thesis by (auto simp: at_def)
qed

lemmas at_list = at_Nil at_Cons

section \<open>The example states, evaluated\<close>

lemma pose_0_not_1: "POSE_0 \<noteq> POSE_1" "POSE_1 \<noteq> POSE_0"
  by (simp_all add: POSE_0_def POSE_1_def)

lemma pose_at_0: "at POSE_INSTRUCTIONS 0 = Some POSE_0"
  by (simp add: POSE_INSTRUCTIONS_def at_list)

lemma pose_at_1: "at POSE_INSTRUCTIONS 1 = Some POSE_1"
  by (simp add: POSE_INSTRUCTIONS_def at_list)

lemma pose_2_not_0_1:
  "POSE_0 \<noteq> POSE_2" "POSE_1 \<noteq> POSE_2" "POSE_2 \<noteq> POSE_0" "POSE_2 \<noteq> POSE_1"
  by (simp_all add: POSE_0_def POSE_1_def POSE_2_def)

lemma pose_at_2: "at POSE_INSTRUCTIONS 2 = Some POSE_2"
  by (simp add: POSE_INSTRUCTIONS_def at_list)

lemma POSE_0_not_empty: "POSE_0 \<noteq> []"
  by (simp add: POSE_0_def)

lemma studio_eval:
  "studio = initialState\<lparr>modelImageUrl := Some ''data:M0'',
              outfitHistory := [\<lparr>garment = None, poseImages = [(POSE_0, ''data:M0'')]\<rparr>]\<rparr>"
  by (simp add: studio_def handleModelFinalized_def initialState_def pose_at_0 js_string_def)

lemma shirt_not_in_defaultWardrobe:
  "find (\<lambda>item. item_id item = ''g1'') defaultWardrobe = None"
  by (simp add: defaultWardrobe_def)

lemma studio_display: "displayImageUrl studio = Some ''data:M0''"
  by (simp add: studio_eval displayImageUrl_def initialState_def at_list pose_at_0 js_string_def)

lemma dressed_eval:
  "dressed = initialState\<lparr>modelImageUrl := Some ''data:M0'',
     outfitHistory := [\<lparr>garment = None, poseImages = [(POSE_0, ''data:M0'')]\<rparr>,
                       \<lparr>garment = Some shirt, poseImages = [(POSE_0, ''data:I1'')]\<rparr>],
     currentOutfitIndex := 1,
     wardrobe := defaultWardrobe @ [shirt]\<rparr>"
  unfolding dressed_def handleGarmentSelect_def studio_display
  by (simp add: studio_eval initialState_def at_list slice_def rel_index_def Let_def pose_at_0
        js_string_def shirt_not_in_defaultWardrobe shirt_def)

lemma dressed_display: "displayImageUrl dressed = Some ''data:I1''"
  by (simp add: dressed_eval displayImageUrl_def initialState_def at_list pose_at_0 js_string_def)

lemma undressed_eval:
  "undressed = initialState\<lparr>modelImageUrl := Some ''data:M0'',
     outfitHistory := [\<lparr>garment = None, poseImages = [(POSE_0, ''data:M0'')]\<rparr>,
                       \<lparr>garment = Some shirt, poseImages = [(POSE_0, ''data:I1'')]\<rparr>],
     wardrobe := defaultWardrobe @ [shirt]\<rparr>"
  by (simp add: undressed_def handleRemoveLastGarment_def dressed_eval initialState_def)

lemma undressed_display: "displayImageUrl undressed = Some ''data:M0''"
  by (simp add: undressed_eval displayImageUrl_def initialState_def at_list pose_at_0 js_string_def)

lemma filmed_eval:
  "filmed = initialState\<lparr>modelImageUrl := Some ''data:M0'',
     outfitHistory := [\<lparr>garment = None, poseImages = [(POSE_0, ''data:M0'')]\<rparr>,
                       \<lparr>garment = Some shirt, poseImages = [(POSE_0, ''data:I1'')]\<rparr>],
     wardrobe := defaultWardrobe @ [shirt],
     videoUrls := [''blob:V1'']\<rparr>"
  unfolding filmed_def handleGenerateVideo_def undressed_display
  by (simp add: undressed_eval initialState_def slice_last_two Let_def)

lemma filmed_display: "displayImageUrl filmed = Some ''data:M0''"
  by (simp add: filmed_eval displayImageUrl_def initialState_def at_list pose_at_0 js_string_def)

lemma posed_eval:
  "posed = initialState\<lparr>modelImageUrl := Some ''data:M0'',
     outfitHistory := [\<lparr>garment = None, poseImages = [(POSE_0, ''data:M0'')]\<rparr>,
                       \<lparr>garment = Some shirt,
                        poseImages = [(POSE_0, ''data:I1''), (POSE_1, ''data:I2'')]\<rparr>],
     currentOutfitIndex := 1,
     currentPoseIndex := 1,
     wardrobe := defaultWardrobe @ [shirt]\<rparr>"
  by (simp add: posed_def handlePoseSelect_def dressed_eval initialState_def at_list
        pose_at_1 js_string_def truthy_def first_value_def pose_0_not_1 Let_def)

lemma posed_display: "displayImageUrl posed = Some ''data:I2''"
  by (simp add: posed_eval displayImageUrl_def initialState_def at_list pose_at_1 js_string_def
        pose_0_not_1)

lemma filmed_pose_eval:
  "filmed_pose = posed\<lparr>videoUrls := [''blob:V1'']\<rparr>"
  unfolding filmed_pose_def handleGenerateVideo_def posed_display
  by (simp add: posed_eval initialState_def slice_last_two Let_def)

section \<open>The cursor and the base layer\<close>

lemma history_ok_initial: "history_ok [\<lparr>garment = None, poseImages = p\<rparr>] 0"
  by (simp add: history_ok_def at_0)

lemma history_ok_undo: "history_ok h c \<Longrightarrow> 0 < c \<Longrightarrow> history_ok h (c - 1)"
  by (simp add: history_ok_def)

lemma history_ok_redo: "history_ok h c \<Longrightarrow> at h (c + 1) = Some L \<Longrightarrow> history_ok h (c + 1)"
  by (simp add: history_ok_def at_Some_iff)

lemma history_ok_append:
  assumes "history_ok h c"
  shows "history_ok (slice h 0 (Some (c + 1)) @ [L]) (c + 1)"
proof -
  from assms have c: "0 \<le> c" "c < int (length h)"
    and b: "map_option garment (at h 0) = Some None"
    by (simp_all add: history_ok_def)
  have tk: "slice h 0 (Some (c + 1)) = take (nat (c + 1)) h"
    using c by (simp add: slice_prefix)
  have "map_option garment (at (take (nat (c + 1)) h @ [L]) 0) = Some None"
    using c b by (cases h) (simp_all add: at_0 nat_add_distrib)
  moreover have "int (length (take (nat (c + 1)) h @ [L])) = c + 2"
    using c by simp
  ultimately show ?thesis
    using c unfolding history_ok_def tk by simp
qed

lemma history_ok_pose:
  assumes "history_ok h c" and "at h c = Some L"
  shows "history_ok (h[nat c := L\<lparr>poseImages := p\<rparr>]) c"
  using assms
  by (cases h; cases "nat c") (auto simp: history_ok_def at_0 at_Some_iff)

lemma history_ok_handleGarmentSelect:
  assumes "history_ok (outfitHistory s) (currentOutfitIndex s)"
  shows "history_ok (outfitHistory (fst (handleGarmentSelect g f i out s)))
                    (currentOutfitIndex (fst (handleGarmentSelect g f i out s)))"
  using assms history_ok_redo [OF assms] history_ok_append [OF assms]
  by (auto simp: handleGarmentSelect_def Let_def split: option.splits sum.splits)

lemma history_ok_handlePoseSelect:
  assumes "history_ok (outfitHistory s) (currentOutfitIndex s)"
    and "handlePoseSelect g n out s = Inr r"
  shows "history_ok (outfitHistory (fst r)) (currentOutfitIndex (fst r))"
  using assms history_ok_pose [OF assms(1)]
  by (auto simp: handlePoseSelect_def Let_def split: if_splits option.splits sum.splits)

lemma history_ok_handleModelFinalized:
  "history_ok (outfitHistory (handleModelFinalized u s)) (currentOutfitIndex (handleModelFinalized u s))"
  by (simp add: handleModelFinalized_def history_ok_initial)

lemma history_ok_handleRemoveLastGarment:
  "history_ok (outfitHistory s) (currentOutfitIndex s)
   \<Longrightarrow> history_ok (outfitHistory (handleRemoveLastGarment s))
                  (currentOutfitIndex (handleRemoveLastGarment s))"
  by (simp add: handleRemoveLastGarment_def history_ok_undo)

subsection \<open>The parts of a call and the call as a whole\<close>

text \<open>
  On the render of the state of the moment the two parts of a handler, one after the
  other, are the handler as defined in one piece.
\<close>

lemma handleGarmentSelect_on_fresh:
  "handleGarmentSelect_on g f item out s s = handleGarmentSelect g f item out s"
  by (simp add: handleGarmentSelect_on_def handleGarmentSelect_begin_def
        handleGarmentSelect_settle_def handleGarmentSelect_def Let_def
      split: option.splits sum.splits)

lemma handleGarmentClick_on_fresh:
  "handleGarmentClick_on g item fileOutcome out (snd ps) ps = handleGarmentClick g item fileOutcome out ps"
  by (simp add: handleGarmentClick_on_def handleGarmentClick_def handleGarmentSelect_on_fresh Let_def
      split: sum.splits)

lemma handlePoseSelect_parts:
  "handlePoseSelect g n out s =
     (case handlePoseSelect_begin n s s of
        Inl e \<Rightarrow> Inl e
      | Inr (Done s') \<Rightarrow> Inr (s', [])
      | Inr (Waiting s1 call) \<Rightarrow>
          (case handlePoseSelect_settle g n out s s1 of
             None \<Rightarrow> Inl TypeError
           | Some s2 \<Rightarrow> Inr (s2, [call])))"
  by (simp add: handlePoseSelect_def handlePoseSelect_begin_def handlePoseSelect_settle_def Let_def
      split: option.splits sum.splits)

lemma handlePoseSelect_settle_fresh:
  "handlePoseSelect_begin n s s = Inr (Waiting s1 call)
   \<Longrightarrow> \<exists>s2. handlePoseSelect_settle g n out s s1 = Some s2"
  by (auto simp: handlePoseSelect_begin_def handlePoseSelect_settle_def Let_def
      split: option.splits sum.splits if_splits)

subsection \<open>Two clicks from one render\<close>

lemma first_click_eval:
  "first_click = undressed\<lparr>currentOutfitIndex := 1, currentPoseIndex := 0\<rparr>"
  unfolding first_click_def handleGarmentClick_on_def handleGarmentSelect_on_def
    handleGarmentSelect_begin_def undressed_display
  by (simp add: undressed_eval initialState_def activeGarmentIds_def activeOutfitLayers_def
        slice_def rel_index_def Let_def garment_id_def at_list shirt_def)

lemma second_click_eval:
  "second_click = undressed\<lparr>currentOutfitIndex := 2, currentPoseIndex := 0\<rparr>"
  unfolding second_click_def handleGarmentClick_on_def handleGarmentSelect_on_def
    handleGarmentSelect_begin_def undressed_display
  by (simp add: first_click_eval undressed_eval initialState_def activeGarmentIds_def
        activeOutfitLayers_def slice_def rel_index_def Let_def garment_id_def at_list shirt_def)

text \<open>
  C1. The cursor is to stay between 0 and the last index of the history, through any
  sequence of operations. A handler called on the render of the state of the moment
  keeps it there (the lemmas on \<open>history_ok\<close> above); two calls from one render do not.
  In \<open>undressed\<close> the shirt has been applied and removed: two layers, cursor 0, the
  shirt not among the active garments. Two clicks on the shirt before either
  \<open>urlToFile\<close> is back both pass the guard of \<open>handleGarmentClick\<close>, and both calls
  of that render's \<open>onGarmentSelect\<close> find the shirt layer after the cursor they closed
  over and advance the cursor of the moment: it ends at 2 with two layers in the
  history and no layer under it.
\<close>

theorem two_clicks_move_cursor_past_history:
  "currentOutfitIndex undressed = 0 \<and> length (outfitHistory undressed) = 2
   \<and> handleGarmentClick_on fallback_only shirt (Inr png) (Inr ''data:I3'') undressed (None, undressed)
       = ((None, first_click), [])
   \<and> currentOutfitIndex first_click = 1
   \<and> handleGarmentClick_on fallback_only shirt (Inr png) (Inr ''data:I3'') undressed (None, first_click)
       = ((None, second_click), [])
   \<and> currentOutfitIndex second_click = 2
   \<and> length (outfitHistory second_click) = 2
   \<and> \<not> currentOutfitIndex second_click \<le> int (length (outfitHistory second_click)) - 1
   \<and> at (outfitHistory second_click) (currentOutfitIndex second_click) = None"
proof -
  have one: "handleGarmentClick_on fallback_only shirt (Inr png) (Inr ''data:I3'') undressed
               (None, undressed) = ((None, first_click), [])"
    unfolding first_click_eval
    unfolding handleGarmentClick_on_def handleGarmentSelect_on_def
      handleGarmentSelect_begin_def undressed_display
    by (simp add: undressed_eval initialState_def activeGarmentIds_def activeOutfitLayers_def
          slice_def rel_index_def Let_def garment_id_def at_list shirt_def)
  have two: "handleGarmentClick_on fallback_only shirt (Inr png) (Inr ''data:I3'') undressed
               (None, first_click) = ((None, second_click), [])"
    unfolding second_click_eval first_click_eval
    unfolding handleGarmentClick_on_def handleGarmentSelect_on_def
      handleGarmentSelect_begin_def undressed_display
    by (simp add: undressed_eval initialState_def activeGarmentIds_def activeOutfitLayers_def
          slice_def rel_index_def Let_def garment_id_def at_list shirt_def)
  show ?thesis
    unfolding one two
    by (simp add: first_click_eval second_click_eval undressed_eval initialState_def at_list)
qed

section \<open>Undo on the base layer\<close>

text \<open>
  C10. With the cursor at 0, \<open>handleRemoveLastGarment\<close> returns the state it was given:
  history, cursor, pose index, videos, wardrobe, error and every other field are as
  before.
\<close>

theorem remove_at_base_is_identity:
  "currentOutfitIndex s = 0 \<Longrightarrow> handleRemoveLastGarment s = s"
  by (simp add: handleRemoveLastGarment_def)

theorem remove_at_base_is_identity_witness:
  "currentOutfitIndex studio = 0 \<and> handleRemoveLastGarment studio = studio"
proof -
  have c: "currentOutfitIndex studio = 0"
    by (simp add: studio_def handleModelFinalized_def)
  show ?thesis
    using c remove_at_base_is_identity [OF c] by simp
qed

section \<open>A failed pose change\<close>

text \<open>
  C5. When the layer under the cursor has no image for the target pose and the pose
  generation fails, \<open>handlePoseSelect\<close> returns with \<open>currentPoseIndex\<close> at the value it
  had before the call and with the history, and so the \<open>poseImages\<close> of the active
  layer, unchanged.
\<close>

theorem failed_pose_change_rolls_back:
  assumes "at (outfitHistory s) (currentOutfitIndex s) = Some layer"
    and "\<not> truthy (map_of (poseImages layer) (js_string (at POSE_INSTRUCTIONS newIndex)))"
  shows "\<exists>s' calls. handlePoseSelect g newIndex (Inl err) s = Inr (s', calls)
           \<and> currentPoseIndex s' = currentPoseIndex s
           \<and> outfitHistory s' = outfitHistory s
           \<and> currentOutfitIndex s' = currentOutfitIndex s
           \<and> map_option poseImages (at (outfitHistory s') (currentOutfitIndex s'))
               = Some (poseImages layer)"
  using assms
  by (auto simp: handlePoseSelect_def Let_def split: option.splits)

theorem failed_pose_change_rolls_back_witness:
  "at (outfitHistory dressed) (currentOutfitIndex dressed)
     = Some \<lparr>garment = Some shirt, poseImages = [(POSE_0, ''data:I1'')]\<rparr>
   \<and> \<not> truthy (map_of [(POSE_0, ''data:I1'')] (js_string (at POSE_INSTRUCTIONS 1)))
   \<and> handlePoseSelect fallback_only 1 (Inl (ErrorObj ''quota'')) dressed
       = Inr (dressed\<lparr>error := Some msg_cannot_change_pose\<rparr>,
              [PoseCall ''data:I1'' (Some POSE_1)])
   \<and> currentPoseIndex (dressed\<lparr>error := Some msg_cannot_change_pose\<rparr>) = currentPoseIndex dressed"
proof -
  have a: "at (outfitHistory dressed) (currentOutfitIndex dressed)
     = Some \<lparr>garment = Some shirt, poseImages = [(POSE_0, ''data:I1'')]\<rparr>"
    by (simp add: dressed_eval at_list)
  have b: "\<not> truthy (map_of (poseImages \<lparr>garment = Some shirt, poseImages = [(POSE_0, ''data:I1'')]\<rparr>)
                        (js_string (at POSE_INSTRUCTIONS 1)))"
    by (simp add: pose_at_1 js_string_def truthy_def pose_0_not_1)
  have c: "handlePoseSelect fallback_only 1 (Inl (ErrorObj ''quota'')) dressed
       = Inr (dressed\<lparr>error := Some msg_cannot_change_pose\<rparr>,
              [PoseCall ''data:I1'' (Some POSE_1)])"
    by (simp add: handlePoseSelect_def dressed_eval initialState_def at_list pose_at_1
          js_string_def truthy_def pose_0_not_1 first_value_def fallback_only_def Let_def)
  from failed_pose_change_rolls_back [OF a b, of fallback_only "ErrorObj ''quota''"]
  show ?thesis
    using a b c by simp
qed

section \<open>Videos after a change of outfit or pose\<close>

text \<open>
  C7. The videos belong to the outfit and pose on display, and the slow path of
  \<open>handleGarmentSelect\<close>, \<open>handleRemoveLastGarment\<close> and a regenerated pose clear them.
  The two early returns do not. \<open>filmed\<close> holds a video of the bare model
  with the shirt layer waiting behind the cursor: selecting the shirt takes the fast
  path, the cursor moves to the shirt and the video of the bare model is still listed.
  \<open>filmed_pose\<close> holds a video of the second pose: selecting the first pose, which has
  an image already, changes the pose and the video is still listed.
\<close>

theorem videos_survive_redo_and_cached_pose:
  "videoUrls filmed = [''blob:V1''] \<and> currentOutfitIndex filmed = 0
   \<and> handleGarmentSelect fallback_only png shirt (Inr ''data:I3'') filmed
       = (filmed\<lparr>currentOutfitIndex := 1, currentPoseIndex := 0\<rparr>, [])
   \<and> videoUrls (fst (handleGarmentSelect fallback_only png shirt (Inr ''data:I3'') filmed))
       = [''blob:V1'']
   \<and> videoUrls filmed_pose = [''blob:V1''] \<and> currentPoseIndex filmed_pose = 1
   \<and> handlePoseSelect fallback_only 0 (Inr ''data:I3'') filmed_pose
       = Inr (filmed_pose\<lparr>currentPoseIndex := 0\<rparr>, [])
   \<and> videoUrls (filmed_pose\<lparr>currentPoseIndex := 0\<rparr>) = [''blob:V1'']"
proof -
  have redo: "handleGarmentSelect fallback_only png shirt (Inr ''data:I3'') filmed
       = (filmed\<lparr>currentOutfitIndex := 1, currentPoseIndex := 0\<rparr>, [])"
    unfolding handleGarmentSelect_def filmed_display
    by (simp add: filmed_eval initialState_def at_list garment_id_def shirt_def)
  have cached: "handlePoseSelect fallback_only 0 (Inr ''data:I3'') filmed_pose
       = Inr (filmed_pose\<lparr>currentPoseIndex := 0\<rparr>, [])"
    by (simp add: handlePoseSelect_def filmed_pose_eval posed_eval initialState_def at_list
          pose_at_0 js_string_def truthy_def)
  show ?thesis
    unfolding redo cached
    by (simp add: filmed_eval filmed_pose_eval posed_eval initialState_def)
qed

section \<open>The list of videos\<close>

lemma handleGenerateVideo_bound:
  "length (videoUrls s) \<le> 2 \<Longrightarrow> length (videoUrls (fst (handleGenerateVideo g m k out s))) \<le> 2"
  by (auto simp: handleGenerateVideo_def slice_last_two Let_def split: option.splits sum.splits)

lemma generate_videos_bound:
  "length (videoUrls s) \<le> 2 \<Longrightarrow> length (videoUrls (generate_videos g reqs s)) \<le> 2"
  by (induction reqs arbitrary: s) (simp_all add: handleGenerateVideo_bound)

text \<open>
  C6. A list of at most two videos has at most two after any sequence of
  \<open>handleGenerateVideo\<close> calls, and a successful call on a list of two drops the older
  one and keeps the remaining two in the order they were generated.
\<close>

theorem video_list_keeps_latest_two:
  "(length (videoUrls s) \<le> 2 \<longrightarrow> length (videoUrls (generate_videos g reqs s)) \<le> 2)
   \<and> (videoUrls s = [a, b] \<and> truthy (displayImageUrl s) \<and> \<not> isVideoLoading s
        \<longrightarrow> videoUrls (fst (handleGenerateVideo g m k (Inr v) s)) = [b, v])"
  by (auto simp: generate_videos_bound handleGenerateVideo_def slice_last_two truthy_def Let_def
           split: option.splits)

theorem video_list_keeps_latest_two_witness:
  "length (videoUrls two_videos) \<le> 2
   \<and> videoUrls two_videos = [''blob:V1'', ''blob:V2'']
   \<and> truthy (displayImageUrl two_videos) \<and> \<not> isVideoLoading two_videos
   \<and> length (videoUrls (generate_videos fallback_only
                 [(''veo-3.1-generate-preview'', True, Inr ''blob:V3''),
                  (''veo-3.1-fast-generate-preview'', False, Inr ''blob:V4'')] two_videos)) \<le> 2
   \<and> videoUrls (fst (handleGenerateVideo fallback_only ''veo-3.1-generate-preview'' True
                      (Inr ''blob:V3'') two_videos)) = [''blob:V2'', ''blob:V3'']"
proof -
  have d: "displayImageUrl two_videos = Some ''data:I1''"
    by (simp add: two_videos_def dressed_eval displayImageUrl_def initialState_def at_list
          pose_at_0 js_string_def)
  have h: "length (videoUrls two_videos) \<le> 2"
    "videoUrls two_videos = [''blob:V1'', ''blob:V2'']"
    "truthy (displayImageUrl two_videos)" "\<not> isVideoLoading two_videos"
    unfolding d by (simp_all add: two_videos_def truthy_def dressed_eval initialState_def)
  from video_list_keeps_latest_two
         [of two_videos fallback_only
             "[(''veo-3.1-generate-preview'', True, Inr ''blob:V3''),
               (''veo-3.1-fast-generate-preview'', False, Inr ''blob:V4'')]"
             "''blob:V1''" "''blob:V2''" "''veo-3.1-generate-preview''" True "''blob:V3''"]
  show ?thesis
    using h by simp
qed

section \<open>Finalising the model\<close>

text \<open>
  What \<open>handleModelFinalized\<close> sets and what it leaves: the pose index is not among
  its setters. The start screen calls it with a non-empty model image; without one its
  button is not there and the state stays as it is.
\<close>

lemma handleModelFinalized_effect:
  "outfitHistory (handleModelFinalized u s) = [\<lparr>garment = None, poseImages = [(POSE_INSTRUCTIONS ! 0, u)]\<rparr>]
   \<and> currentOutfitIndex (handleModelFinalized u s) = 0
   \<and> modelImageUrl (handleModelFinalized u s) = Some u
   \<and> currentPoseIndex (handleModelFinalized u s) = currentPoseIndex s
   \<and> currentPoseIndex (handleModelFinalized u initialState) = 0
   \<and> currentPoseIndex (handleModelFinalized u (handleStartOver s)) = 0
   \<and> (u \<noteq> [] \<longrightarrow> finalizeModelClick (Some u) s = handleModelFinalized u s)
   \<and> finalizeModelClick None s = s
   \<and> finalizeModelClick (Some []) s = s"
proof -
  have "POSE_INSTRUCTIONS ! 0 = POSE_0"
    by (simp add: POSE_INSTRUCTIONS_def)
  then show ?thesis
    by (simp add: handleModelFinalized_def finalizeModelClick_def initialState_def
          handleStartOver_def pose_at_0 js_string_def)
qed

lemma turning_eval:
  "handlePoseSelect_begin 2 posed posed
     = Inr (Waiting (posed\<lparr>error := None, isLoading := True, loadingMessage := txt_changing_pose,
                           currentPoseIndex := 2\<rparr>)
                    (PoseCall ''data:I1'' (Some POSE_2)))"
  by (simp add: handlePoseSelect_begin_def posed_eval initialState_def at_list pose_at_2
        js_string_def truthy_def first_value_def pose_2_not_0_1 Let_def)

lemma start_over_while_turning: "handleStartOver turning = initialState"
  unfolding turning_def turning_eval
  by (simp add: handleStartOver_def posed_eval initialState_def)

lemma rolled_back_eval:
  "rolled_back = initialState\<lparr>error := Some msg_cannot_change_pose, currentPoseIndex := 1\<rparr>"
  by (simp add: rolled_back_def start_over_while_turning handlePoseSelect_settle_def
        posed_eval initialState_def fallback_only_def Let_def)

text \<open>
  C8. Finalising a model image is to leave the single base layer, the cursor at 0 and
  the pose index at 0, and without a model image nothing is to change. The history,
  the cursor and the case without an image are as said; the pose index is not reset.
  It is 0 on the start screen after \<open>handleStartOver\<close>, unless a pose change was under
  way: in \<open>posed\<close> (pose index 1) a third pose is asked for, the user starts over while
  the generation runs, the generation fails, and the \<open>catch\<close> branch puts the pose
  index back to the 1 it closed over. The start screen is up (no model image), and
  the model finalised from there has pose index 1.
\<close>

theorem finalized_model_keeps_rolled_back_pose:
  "currentPoseIndex posed = 1
   \<and> handlePoseSelect_begin 2 posed posed = Inr (Waiting turning (PoseCall ''data:I1'' (Some POSE_2)))
   \<and> modelImageUrl (handleStartOver turning) = None
   \<and> currentPoseIndex (handleStartOver turning) = 0
   \<and> handlePoseSelect_settle fallback_only 2 (Inl (ErrorObj ''quota'')) posed (handleStartOver turning)
       = Some rolled_back
   \<and> modelImageUrl rolled_back = None
   \<and> currentPoseIndex rolled_back = 1
   \<and> outfitHistory (finalizeModelClick (Some ''data:M1'') rolled_back)
       = [\<lparr>garment = None, poseImages = [(POSE_0, ''data:M1'')]\<rparr>]
   \<and> currentOutfitIndex (finalizeModelClick (Some ''data:M1'') rolled_back) = 0
   \<and> currentPoseIndex (finalizeModelClick (Some ''data:M1'') rolled_back) = 1
   \<and> finalizeModelClick None rolled_back = rolled_back"
proof -
  have t: "turning = posed\<lparr>error := None, isLoading := True, loadingMessage := txt_changing_pose,
                           currentPoseIndex := 2\<rparr>"
    unfolding turning_def turning_eval by simp
  have b: "handlePoseSelect_begin 2 posed posed
             = Inr (Waiting turning (PoseCall ''data:I1'' (Some POSE_2)))"
    unfolding t by (rule turning_eval)
  have s: "handlePoseSelect_settle fallback_only 2 (Inl (ErrorObj ''quota'')) posed initialState
             = Some rolled_back"
    unfolding rolled_back_eval
    by (simp add: handlePoseSelect_settle_def posed_eval initialState_def fallback_only_def Let_def)
  show ?thesis
    unfolding start_over_while_turning b s
    by (simp add: rolled_back_eval posed_eval initialState_def finalizeModelClick_def
          handleModelFinalized_def pose_at_0 js_string_def)
qed

section \<open>The three ways a response is read\<close>

lemma first_inlineData_find:
  "first_inlineData ps = (case find (\<lambda>p. inlineData p \<noteq> None) ps of
                            None \<Rightarrow> None | Some p \<Rightarrow> inlineData p)"
  by (induction ps) (auto split: option.splits)

lemma find_append:
  "find P (xs @ ys) = (case find P xs of None \<Rightarrow> find P ys | Some x \<Rightarrow> Some x)"
  by (induction xs) simp_all

lemma scan_candidates_find:
  "scan_candidates cs = (case find (\<lambda>p. inlineData p \<noteq> None) (concat (map candidate_parts cs)) of
                           None \<Rightarrow> None | Some p \<Rightarrow> inlineData p)"
proof (induction cs)
  case Nil
  then show ?case by simp
next
  case (Cons c cs)
  show ?case
  proof (cases "find (\<lambda>p. inlineData p \<noteq> None) (candidate_parts c)")
    case None
    then show ?thesis
      using Cons by (simp add: find_append first_inlineData_find)
  next
    case (Some p)
    then have "inlineData p \<noteq> None"
      by (auto simp: find_Some_iff)
    with Some show ?thesis
      by (auto simp: find_append first_inlineData_find)
  qed
qed

lemma first_reason:
  "(case candidates r of None \<Rightarrow> None
    | Some cs \<Rightarrow> (case at cs 0 of None \<Rightarrow> None | Some c \<Rightarrow> finishReason c))
   = (case response_candidates r of [] \<Rightarrow> None | c # _ \<Rightarrow> finishReason c)"
  by (simp add: response_candidates_def at_0 split: option.splits list.splits)

lemma chatty_eval:
  "handleApiResponse chatty = Inl (ErrorObj ''No image.'')"
  by (simp add: handleApiResponse_def chatty_def response_candidates_def candidate_parts_def
        at_list truthy_def trim_def js_whitespace_def strip_leading.simps)

text \<open>
  C9, as the specification words it, does not hold in its third case: the message is the text with the
  white space at its ends removed, not the text. \<open>chatty\<close> carries no image, ends with
  \<open>STOP\<close> and its text ends with a line feed; the message has none.
\<close>

theorem api_response_text_is_trimmed_counterexample:
  "response_text chatty = Some (''No image.'' @ [CHR 0x0A])
   \<and> handleApiResponse chatty \<noteq> Inl (ErrorObj (''No image.'' @ [CHR 0x0A]))"
  by (simp add: chatty_eval) (simp add: chatty_def)

text \<open>
  C9, amended. Reading the parts of the candidates in order: when a part carries inline
  data, the first such part's data is returned as a data URL. When none does and the
  first candidate has a non-empty finish reason other than \<open>STOP\<close>, the error reports
  that reason. When none does and the first candidate is missing or its finish reason
  is missing, empty or \<open>STOP\<close>, the error message is the response's text with the white
  space trimmed from both ends, or the generic message when there is no text or
  nothing is left of it.
\<close>

theorem api_response_three_ways:
  "(find (\<lambda>p. inlineData p \<noteq> None) (concat (map candidate_parts (response_candidates r))) = Some p
        \<and> inlineData p = Some b
      \<longrightarrow> handleApiResponse r
            = Inr (''data:'' @ js_string (mimeType b) @ '';base64,'' @ js_string (data b)))
   \<and> (find (\<lambda>p. inlineData p \<noteq> None) (concat (map candidate_parts (response_candidates r))) = None
        \<and> response_candidates r = c # cs \<and> finishReason c = Some reason
        \<and> reason \<noteq> [] \<and> reason \<noteq> ''STOP''
      \<longrightarrow> handleApiResponse r = Inl (ErrorObj (''Image generation stopped. Reason: '' @ reason)))
   \<and> (find (\<lambda>p. inlineData p \<noteq> None) (concat (map candidate_parts (response_candidates r))) = None
        \<and> (case response_candidates r of [] \<Rightarrow> None | first # _ \<Rightarrow> finishReason first)
            \<in> {None, Some [], Some ''STOP''}
      \<longrightarrow> handleApiResponse r
            = Inl (ErrorObj (case response_text r of
                               None \<Rightarrow> ''AI did not return an image.''
                             | Some t \<Rightarrow> if trim t = [] then ''AI did not return an image.''
                                          else trim t)))"
  unfolding handleApiResponse_def first_reason scan_candidates_find
  by (auto simp: truthy_def js_string_def Let_def split: option.splits list.splits)

theorem api_response_three_ways_witness:
  "handleApiResponse with_image = Inr ''data:image/png;base64,QUJD''
   \<and> handleApiResponse blocked = Inl (ErrorObj ''Image generation stopped. Reason: SAFETY'')
   \<and> handleApiResponse chatty = Inl (ErrorObj ''No image.'')"
proof -
  let ?img = "\<lparr>inlineData = Some \<lparr>mimeType = Some ''image/png'', data = Some ''QUJD''\<rparr>\<rparr>"
  let ?blob = "\<lparr>mimeType = Some ''image/png'', data = Some ''QUJD''\<rparr>"
  let ?stop = "\<lparr>content = None, finishReason = Some ''SAFETY''\<rparr>"
  have a: "find (\<lambda>p. inlineData p \<noteq> None)
             (concat (map candidate_parts (response_candidates with_image))) = Some ?img"
    "inlineData ?img = Some ?blob"
    by (simp_all add: with_image_def response_candidates_def candidate_parts_def)
  have b: "find (\<lambda>p. inlineData p \<noteq> None)
             (concat (map candidate_parts (response_candidates blocked))) = None"
    "response_candidates blocked = [?stop]" "finishReason ?stop = Some ''SAFETY''"
    "''SAFETY'' \<noteq> []" "''SAFETY'' \<noteq> ''STOP''"
    by (simp_all add: blocked_def response_candidates_def candidate_parts_def)
  have c: "find (\<lambda>p. inlineData p \<noteq> None)
             (concat (map candidate_parts (response_candidates chatty))) = None"
    "(case response_candidates chatty of [] \<Rightarrow> None | first # _ \<Rightarrow> finishReason first)
       \<in> {None, Some [], Some ''STOP''}"
    by (simp_all add: chatty_def response_candidates_def candidate_parts_def)
  have t: "response_text chatty = Some (''No image.'' @ [CHR 0x0A])"
    "trim (''No image.'' @ [CHR 0x0A]) = ''No image.''"
    by (simp_all add: chatty_def trim_def js_whitespace_def strip_leading.simps)
  have "handleApiResponse with_image = Inr ''data:image/png;base64,QUJD''"
    using api_response_three_ways [of with_image ?img ?blob] a
    by (simp add: js_string_def)
  moreover have "handleApiResponse blocked
                   = Inl (ErrorObj ''Image generation stopped. Reason: SAFETY'')"
    using api_response_three_ways [of blocked _ _ ?stop "[]" "''SAFETY''"] b
    by simp
  moreover have "handleApiResponse chatty = Inl (ErrorObj ''No image.'')"
    using api_response_three_ways [of chatty] c t
    by simp
  ultimately show ?thesis
    by simp
qed

section \<open>Images that can be shown\<close>

text \<open>
  \<open>handleApiResponse\<close> never returns the empty string, and the start screen finalises
  a non-empty model image: with such inputs every handler, called on the render of the
  state of the moment, keeps the images of every layer non-empty.
\<close>

lemma handleApiResponse_not_empty: "handleApiResponse r = Inr u \<Longrightarrow> u \<noteq> []"
  by (auto simp: handleApiResponse_def Let_def split: option.splits if_splits)

lemma map_of_image_ok:
  "list_all (\<lambda>kv. snd kv \<noteq> []) ps \<Longrightarrow> map_of ps k = Some img \<Longrightarrow> img \<noteq> []"
  by (induction ps) (auto split: if_splits)

lemma layer_display:
  assumes "layer_images_ok layer" and "at (outfitHistory s) (currentOutfitIndex s) = Some layer"
  shows "\<exists>img. displayImageUrl s = Some img \<and> img \<noteq> []"
proof -
  from assms(2) have ne: "outfitHistory s \<noteq> []"
    by (auto simp: at_Some_iff)
  from assms(1) obtain kv rest where ps: "poseImages layer = kv # rest" and kv: "snd kv \<noteq> []"
    and all: "list_all (\<lambda>kv. snd kv \<noteq> []) (poseImages layer)"
    by (cases "poseImages layer") (auto simp: layer_images_ok_def)
  show ?thesis
  proof (cases "map_of (poseImages layer) (js_string (at POSE_INSTRUCTIONS (currentPoseIndex s)))")
    case None
    with ne assms(2) ps kv show ?thesis
      by (simp add: displayImageUrl_def first_value_def)
  next
    case (Some img)
    with map_of_image_ok [OF all Some] ne assms(2) show ?thesis
      by (simp add: displayImageUrl_def)
  qed
qed

lemma images_ok_at:
  "images_ok s \<Longrightarrow> at (outfitHistory s) i = Some layer \<Longrightarrow> layer_images_ok layer"
  by (auto simp: images_ok_def at_def list_all_length split: if_splits)

lemma update_images_ok:
  "list_all (\<lambda>kv. snd kv \<noteq> []) ps \<Longrightarrow> img \<noteq> []
   \<Longrightarrow> list_all (\<lambda>kv. snd kv \<noteq> []) (AList.update k img ps)"
  by (induction ps) auto

lemma update_not_empty: "AList.update k img ps \<noteq> []"
  by (cases ps) auto

lemma layer_update_ok:
  "layer_images_ok layer \<Longrightarrow> img \<noteq> []
   \<Longrightarrow> layer_images_ok (layer\<lparr>poseImages := AList.update k img (poseImages layer)\<rparr>)"
  by (simp add: layer_images_ok_def update_images_ok update_not_empty)

lemma list_all_update: "list_all P xs \<Longrightarrow> P y \<Longrightarrow> list_all P (xs[i := y])"
  by (induction xs arbitrary: i) (auto split: nat.splits)

lemma images_ok_handleModelFinalized: "u \<noteq> [] \<Longrightarrow> images_ok (handleModelFinalized u s)"
  by (simp add: handleModelFinalized_def images_ok_def layer_images_ok_def)

lemma images_ok_handleRemoveLastGarment: "images_ok s \<Longrightarrow> images_ok (handleRemoveLastGarment s)"
  by (simp add: handleRemoveLastGarment_def images_ok_def)

lemma images_ok_handleGarmentSelect:
  assumes "images_ok s" and "out \<noteq> Inr []"
  shows "images_ok (fst (handleGarmentSelect g f item out s))"
proof -
  have "list_all layer_images_ok (slice (outfitHistory s) 0 e)" for e
    using assms(1)
    by (auto simp: images_ok_def slice_def Let_def list_all_iff dest!: in_set_takeD in_set_dropD)
  with assms show ?thesis
    by (auto simp: handleGarmentSelect_def images_ok_def layer_images_ok_def Let_def
          split: option.splits sum.splits)
qed

lemma images_ok_handlePoseSelect:
  assumes "images_ok s" and "out \<noteq> Inr []" and "handlePoseSelect g n out s = Inr r"
  shows "images_ok (fst r)"
proof -
  have upd: "list_all layer_images_ok
               ((outfitHistory s)[i := layer\<lparr>poseImages := AList.update k img (poseImages layer)\<rparr>])"
    if "layer_images_ok layer" "img \<noteq> []" for i layer k img
    using assms(1) layer_update_ok [OF that]
    by (auto simp: images_ok_def intro: list_all_update)
  show ?thesis
    using assms upd images_ok_at [OF assms(1)]
    by (auto simp: handlePoseSelect_def images_ok_def Let_def
          split: option.splits sum.splits if_splits)
qed

section \<open>Selecting a garment\<close>




lemma dressed_images_ok: "images_ok dressed"
  by (simp add: images_ok_def layer_images_ok_def dressed_eval)


lemma select_after_undo:
  "handleGarmentSelect fallback_only png hat (Inr ''data:I2'') (handleRemoveLastGarment dressed)
     = (dressed\<lparr>outfitHistory := [\<lparr>garment = None, poseImages = [(POSE_0, ''data:M0'')]\<rparr>,
                                    \<lparr>garment = Some hat, poseImages = [(POSE_0, ''data:I2'')]\<rparr>],
                wardrobe := defaultWardrobe @ [shirt, hat]\<rparr>,
        [TryOnCall ''data:M0'' png])"
proof -
  have "find (\<lambda>item. item_id item = ''g2'') defaultWardrobe = None"
    by (simp add: defaultWardrobe_def)
  then show ?thesis
    unfolding undressed_def [symmetric] handleGarmentSelect_def undressed_display
    by (simp add: undressed_eval dressed_eval initialState_def at_list Let_def slice_def
          rel_index_def pose_at_0 js_string_def find_append garment_id_def shirt_def hat_def)
qed

subsection \<open>The same garment twice\<close>



subsection \<open>Undo, then the same garment\<close>



subsection \<open>Undo, then another garment\<close>

text \<open>
  C4, as the specification words it, is off by one: with the cursor at 1 before the undo, the
  history after the undo and the hat has 2 layers, not 1.
\<close>

theorem tail_length_after_undo_counterexample:
  "currentOutfitIndex dressed = 1
   \<and> int (length (outfitHistory (fst (handleGarmentSelect fallback_only png hat (Inr ''data:I2'')
                                        (handleRemoveLastGarment dressed))))) = 2
   \<and> int (length (outfitHistory (fst (handleGarmentSelect fallback_only png hat (Inr ''data:I2'')
                                        (handleRemoveLastGarment dressed)))))
       \<noteq> currentOutfitIndex dressed"
  unfolding select_after_undo
  by (simp add: dressed_eval)

text \<open>
  C4, amended. With the cursor at \<open>c > 0\<close> inside the history, non-empty images and no
  generation running, \<open>handleRemoveLastGarment\<close> followed by a successful
  \<open>handleGarmentSelect\<close> of a garment whose id differs from that of the undone layer
  issues one generation call and leaves the first \<open>c\<close> layers followed by the new
  layer: the undone layer and everything after it are gone, the history has
  \<open>c + 1\<close> layers and the cursor is \<open>c\<close> again.
\<close>

theorem different_garment_after_undo_replaces_tail:
  assumes "0 < currentOutfitIndex s"
    and "currentOutfitIndex s < int (length (outfitHistory s))"
    and "images_ok s"
    and "\<not> isLoading s"
    and "at (outfitHistory s) (currentOutfitIndex s) = Some undone"
    and "garment_id undone \<noteq> Some (item_id item)"
  shows "(\<exists>shown. snd (handleGarmentSelect g f item (Inr img) (handleRemoveLastGarment s))
                     = [TryOnCall shown f])
         \<and> outfitHistory (fst (handleGarmentSelect g f item (Inr img) (handleRemoveLastGarment s)))
             = take (nat (currentOutfitIndex s)) (outfitHistory s)
                 @ [\<lparr>garment = Some item, poseImages = [(POSE_0, img)]\<rparr>]
         \<and> int (length (outfitHistory
                  (fst (handleGarmentSelect g f item (Inr img) (handleRemoveLastGarment s)))))
             = currentOutfitIndex s + 1
         \<and> currentOutfitIndex (fst (handleGarmentSelect g f item (Inr img) (handleRemoveLastGarment s)))
             = currentOutfitIndex s"
proof -
  let ?c = "currentOutfitIndex s"
  let ?s2 = "handleRemoveLastGarment s"
  have s2: "?s2 = s\<lparr>currentOutfitIndex := ?c - 1, currentPoseIndex := 0, videoUrls := []\<rparr>"
    using assms(1) by (simp add: handleRemoveLastGarment_def)
  obtain base where base: "at (outfitHistory s) (?c - 1) = Some base"
    using assms(1,2) by (simp add: at_def)
  have "layer_images_ok base"
    using images_ok_at [OF assms(3) base] .
  moreover have "at (outfitHistory ?s2) (currentOutfitIndex ?s2) = Some base"
    using base by (simp add: s2)
  ultimately obtain shown where shown: "displayImageUrl ?s2 = Some shown" "shown \<noteq> []"
    using layer_display by blast
  have next_layer: "at (outfitHistory ?s2) (currentOutfitIndex ?s2 + 1) = Some undone"
    using assms(5) by (simp add: s2)
  have tk: "slice (outfitHistory s) 0 (Some ?c) = take (nat ?c) (outfitHistory s)"
    using assms(1) by (simp add: slice_prefix)
  have r: "handleGarmentSelect g f item (Inr img) ?s2
      = (?s2\<lparr>error := None,
              outfitHistory := take (nat ?c) (outfitHistory s)
                                 @ [\<lparr>garment = Some item, poseImages = [(POSE_0, img)]\<rparr>],
              currentOutfitIndex := ?c,
              wardrobe := (case find (\<lambda>i. item_id i = item_id item) (wardrobe s) of
                             Some _ \<Rightarrow> wardrobe s | None \<Rightarrow> wardrobe s @ [item]),
              videoUrls := [], isLoading := False, loadingMessage := []\<rparr>,
         [TryOnCall shown f])"
    unfolding handleGarmentSelect_def shown next_layer
    using shown(2) assms(4,6) tk
    by (simp add: s2 Let_def pose_at_0 js_string_def split: option.splits)
  show ?thesis
    unfolding r using assms(1,2) by simp
qed

theorem different_garment_after_undo_replaces_tail_witness:
  "0 < currentOutfitIndex dressed
   \<and> currentOutfitIndex dressed < int (length (outfitHistory dressed))
   \<and> images_ok dressed \<and> \<not> isLoading dressed
   \<and> at (outfitHistory dressed) (currentOutfitIndex dressed)
       = Some \<lparr>garment = Some shirt, poseImages = [(POSE_0, ''data:I1'')]\<rparr>
   \<and> garment_id \<lparr>garment = Some shirt, poseImages = [(POSE_0, ''data:I1'')]\<rparr> \<noteq> Some (item_id hat)
   \<and> outfitHistory (fst (handleGarmentSelect fallback_only png hat (Inr ''data:I2'')
                            (handleRemoveLastGarment dressed)))
       = [\<lparr>garment = None, poseImages = [(POSE_0, ''data:M0'')]\<rparr>,
          \<lparr>garment = Some hat, poseImages = [(POSE_0, ''data:I2'')]\<rparr>]
   \<and> currentOutfitIndex (fst (handleGarmentSelect fallback_only png hat (Inr ''data:I2'')
                                 (handleRemoveLastGarment dressed))) = 1"
proof -
  have h: "0 < currentOutfitIndex dressed"
    "currentOutfitIndex dressed < int (length (outfitHistory dressed))"
    "\<not> isLoading dressed"
    "at (outfitHistory dressed) (currentOutfitIndex dressed)
       = Some \<lparr>garment = Some shirt, poseImages = [(POSE_0, ''data:I1'')]\<rparr>"
    "garment_id \<lparr>garment = Some shirt, poseImages = [(POSE_0, ''data:I1'')]\<rparr> \<noteq> Some (item_id hat)"
    by (simp_all add: dressed_eval initialState_def at_list garment_id_def shirt_def hat_def)
  from different_garment_after_undo_replaces_tail
         [OF h(1,2) dressed_images_ok h(3,4,5), of fallback_only png "''data:I2''"]
  show ?thesis
    using h dressed_images_ok by (simp add: dressed_eval)
qed

end
